theory Spec2Isabelle
  imports Main
begin

section \<open>Data model\<close>

text \<open>
  The rows the routes of \<^verbatim>\<open>server/routes.ts\<close> read and write. The routes compare
  \<^verbatim>\<open>status\<close> and \<^verbatim>\<open>role\<close> with string literals (\<^verbatim>\<open>"issued"\<close>, \<^verbatim>\<open>"approver"\<close>), so both
  are strings here. A field that may be \<^verbatim>\<open>null\<close> or \<^verbatim>\<open>undefined\<close> is an option.
  \<^verbatim>\<open>revisionNo\<close> is the integer that \<^verbatim>\<open>parseInt(_, 10)\<close> reads from the form field;
  timestamps are clock readings (a natural number). Field names that several rows
  share (\<^verbatim>\<open>id\<close>, \<^verbatim>\<open>userId\<close>, \<^verbatim>\<open>documentId\<close>) carry the row's name as a suffix.
\<close>

record document =
  id_doc :: string
  docName :: string
  docNumber :: string
  revisionNo :: int
  status :: string
  preparedBy :: string
  approvedBy :: "string option"
  issuedBy :: "string option"
  issuerName :: "string option"
  approvalRemarks :: "string option"
  declineRemarks :: "string option"
  issueRemarks :: "string option"
  approvedAt :: "nat option"
  issuedAt :: "nat option"
  wordFilePath :: "string option"
  headerInfo :: string
  footerInfo :: string
  previousVersionId :: "string option"

record user =
  id_user :: string
  username :: string
  password :: string
  role :: string
  fullName :: string
  masterCopyAccess :: bool

record notification =
  id_notif :: string
  userId_notif :: string
  documentId_notif :: string
  message :: string
  type_notif :: string
  read_notif :: bool
  createdAt :: nat

record controlCopy =
  id_cc :: string
  documentId_cc :: string
  userId_cc :: string
  actionType :: string
  copyNumber :: nat
  issuedAt_cc :: nat

record printLog =
  id_pl :: string
  documentId_pl :: string
  userId_pl :: string
  controlCopyId :: string
  medium :: string
  printedAt :: nat

text \<open>
  The state behind \<^verbatim>\<open>storage\<close>: one list per entity, in listing order, and the
  counter the fresh ids are drawn from.
\<close>

record store =
  documents :: "document list"
  users :: "user list"
  notifications :: "notification list"
  controlCopies :: "controlCopy list"
  printLogs :: "printLog list"
  documentDepartments :: "(string \<times> string) list"
  nextId :: nat

text \<open>What a route answers: the HTTP status and the body passed to \<^verbatim>\<open>res.json\<close> or \<^verbatim>\<open>res.send\<close>.
  An \<^verbatim>\<open>undefined\<close> document is serialised as \<^verbatim>\<open>null\<close>: it is \<open>None\<close>.\<close>

datatype payload =
    Message string
  | DocJson "document option"
  | DocsJson "document option list"
  | MessageDocJson string "document option"
  | PdfBuffer string

type_synonym response = "nat \<times> payload"

fun digits :: "nat \<Rightarrow> string" where
  "digits n = (if n < 10 then [''0123456789'' ! n]
               else digits (n div 10) @ [''0123456789'' ! (n mod 10)])"

declare digits.simps [simp del]

text \<open>
  What a call can throw. Every route wraps its body in \<^verbatim>\<open>try { ... } catch (error)\<close> and
  answers \<^verbatim>\<open>res.status(500).json({ message: error.message })\<close>.
\<close>

datatype error = ValidationError string string | IOError string

fun errorMessage :: "error \<Rightarrow> string" where
  "errorMessage (ValidationError field reason) = field @ '': '' @ reason"
| "errorMessage (IOError m) = m"

definition internalError :: "error \<Rightarrow> response" where
  "internalError e = (500, Message (errorMessage e))"

text \<open>JavaScript truthiness of a string that may be missing, the \<^verbatim>\<open>||\<close> chain on such
  strings, and the text a template literal gives a missing value. \<open>None\<close> is a missing
  field (\<^verbatim>\<open>undefined\<close>); a field sent as JSON \<^verbatim>\<open>null\<close> would print as \<^verbatim>\<open>null\<close> in a message.
  \<open>showInt\<close> writes every digit, as JavaScript does below \<open>10^21\<close> (from there on it
  prints the exponent form). Both only shape the text of a message.\<close>

definition truthy :: "string option \<Rightarrow> bool" where
  "truthy x = (case x of None \<Rightarrow> False | Some v \<Rightarrow> v \<noteq> [])"

definition jsString :: "string option \<Rightarrow> string" where
  "jsString x = (case x of None \<Rightarrow> ''undefined'' | Some v \<Rightarrow> v)"

definition showInt :: "int \<Rightarrow> string" where
  "showInt n = (if n < 0 then ''-'' @ digits (nat (- n)) else digits (nat n))"

section \<open>The storage layer\<close>

text \<open>
  \<^verbatim>\<open>server/storage.ts\<close> is not among the sources; the routes only call it. Its operations
  are modelled from section 6 of the specification (get, list, create and a partial
  update that merges the supplied fields), and from section 3 for the fields of the rows.
\<close>

text \<open>Modelled from the spec: the id generator of the storage layer (\<^verbatim>\<open>id\<close> (unique)),
  here the decimal numeral of the store's counter.\<close>

definition freshId :: "store \<Rightarrow> string" where
  "freshId s = digits (nextId s)"

text \<open>Modelled from the spec: \<^verbatim>\<open>storage.getUser\<close>, the \<^verbatim>\<open>get(id)\<close> of the Document Store
  for User rows; \<open>None\<close> is \<^verbatim>\<open>undefined\<close>.\<close>

definition getUser :: "string \<Rightarrow> store \<Rightarrow> user option" where
  "getUser uid s = find (\<lambda>u. id_user u = uid) (users s)"

text \<open>Modelled from the spec: \<^verbatim>\<open>storage.getDocument\<close>, the \<^verbatim>\<open>get(id)\<close> of the Document
  Store for Document rows.\<close>

definition getDocument :: "string \<Rightarrow> store \<Rightarrow> document option" where
  "getDocument i s = find (\<lambda>d. id_doc d = i) (documents s)"

text \<open>Modelled from the spec: \<^verbatim>\<open>storage.getDocumentsByStatus\<close>, the \<^verbatim>\<open>listByStatus(status)\<close>
  of the Document Store, in listing order.\<close>

definition getDocumentsByStatus :: "string \<Rightarrow> store \<Rightarrow> document list" where
  "getDocumentsByStatus st s = filter (\<lambda>d. status d = st) (documents s)"

text \<open>Modelled from the spec: \<^verbatim>\<open>storage.getUsersByRole\<close>, the users whose \<^verbatim>\<open>role\<close> is the
  given one, in listing order.\<close>

definition getUsersByRole :: "string \<Rightarrow> store \<Rightarrow> user list" where
  "getUsersByRole r s = filter (\<lambda>u. role u = r) (users s)"

text \<open>Modelled from the spec: \<^verbatim>\<open>storage.updateDocument\<close>, the \<^verbatim>\<open>update(id, partialFields)\<close>
  of the Document Store, "a merge of supplied fields only". The supplied fields are the
  record update \<open>upd\<close>; the result is the row after the merge (\<open>None\<close> when no row has
  the id).\<close>

definition updateDocument ::
  "string \<Rightarrow> (document \<Rightarrow> document) \<Rightarrow> store \<Rightarrow> document option \<times> store" where
  "updateDocument i upd s =
     (let s' = s\<lparr>documents := map (\<lambda>d. if id_doc d = i then upd d else d) (documents s)\<rparr>
      in (getDocument i s', s'))"

text \<open>Modelled from the spec: \<^verbatim>\<open>storage.createNotification\<close>, the \<^verbatim>\<open>create(entity)\<close> of the
  Document Store for Notification rows: a new unread row with a fresh id, appended.\<close>

definition createNotification ::
  "string \<Rightarrow> string \<Rightarrow> string \<Rightarrow> string \<Rightarrow> nat \<Rightarrow> store \<Rightarrow> store" where
  "createNotification uid did msg ty now s =
     s\<lparr>notifications := notifications s @
          [\<lparr>id_notif = freshId s, userId_notif = uid, documentId_notif = did,
            message = msg, type_notif = ty, read_notif = False, createdAt = now\<rparr>],
       nextId := Suc (nextId s)\<rparr>"

text \<open>Modelled from the spec: \<^verbatim>\<open>storage.createControlCopy\<close>, the Control Copy Ledger's
  \<^verbatim>\<open>issue(documentId, userId, actionType)\<close> of section 4.3: it reads the count \<open>k\<close> of the
  copies already issued for the document, increments it and persists the new row with
  \<^verbatim>\<open>copyNumber\<close> \<open>k + 1\<close>, as one serialised step.\<close>

definition createControlCopy ::
  "string \<Rightarrow> string \<Rightarrow> string \<Rightarrow> nat \<Rightarrow> store \<Rightarrow> controlCopy \<times> store" where
  "createControlCopy did uid action now s =
     (let k = length (filter (\<lambda>c. documentId_cc c = did) (controlCopies s));
          cc = \<lparr>id_cc = freshId s, documentId_cc = did, userId_cc = uid,
                 actionType = action, copyNumber = k + 1, issuedAt_cc = now\<rparr>
      in (cc, s\<lparr>controlCopies := controlCopies s @ [cc], nextId := Suc (nextId s)\<rparr>))"

text \<open>Modelled from the spec: \<^verbatim>\<open>storage.createPrintLog\<close>, the \<^verbatim>\<open>create(entity)\<close> of the
  Document Store for PrintLog rows (section 4.4): a new row with a fresh id, appended.\<close>

definition createPrintLog ::
  "string \<Rightarrow> string \<Rightarrow> string \<Rightarrow> string \<Rightarrow> nat \<Rightarrow> store \<Rightarrow> printLog \<times> store" where
  "createPrintLog did uid ccid med now s =
     (let pl = \<lparr>id_pl = freshId s, documentId_pl = did, userId_pl = uid,
                 controlCopyId = ccid, medium = med, printedAt = now\<rparr>
      in (pl, s\<lparr>printLogs := printLogs s @ [pl], nextId := Suc (nextId s)\<rparr>))"

text \<open>Modelled from the spec: \<^verbatim>\<open>storage.assignDocumentToDepartments\<close>, which "associates the
  document with department ids (a side relation, not a status change)".\<close>

definition assignDocumentToDepartments :: "string \<Rightarrow> string list \<Rightarrow> store \<Rightarrow> store" where
  "assignDocumentToDepartments did depts s =
     s\<lparr>documentDepartments := documentDepartments s @ map (\<lambda>dep. (did, dep)) depts\<rparr>"

text \<open>The fields of \<^verbatim>\<open>documentData\<close> that \<^verbatim>\<open>POST /api/documents\<close> hands to
  \<^verbatim>\<open>storage.createDocument\<close>.\<close>

record insertDocument =
  docName_ins :: string
  docNumber_ins :: string
  revisionNo_ins :: int
  preparedBy_ins :: string
  previousVersionId_ins :: "string option"
  headerInfo_ins :: string
  footerInfo_ins :: string

text \<open>Modelled from the spec: \<^verbatim>\<open>storage.createDocument\<close>, the \<^verbatim>\<open>create\<close> of section 4.1:
  "new row at Pending. Fails with ValidationError if revisionNo duplicates an existing row
  for the same docNumber."\<close>

definition createDocument :: "insertDocument \<Rightarrow> store \<Rightarrow> error + (document \<times> store)" where
  "createDocument ins s =
     (case find (\<lambda>d. docNumber d = docNumber_ins ins \<and> revisionNo d = revisionNo_ins ins)
                (documents s) of
        Some _ \<Rightarrow> Inl (ValidationError ''revisionNo'' ''duplicates an existing revision of this docNumber'')
      | None \<Rightarrow>
          (let doc = \<lparr>id_doc = freshId s, docName = docName_ins ins,
                       docNumber = docNumber_ins ins, revisionNo = revisionNo_ins ins,
                       status = ''pending'', preparedBy = preparedBy_ins ins,
                       approvedBy = None, issuedBy = None, issuerName = None,
                       approvalRemarks = None, declineRemarks = None, issueRemarks = None,
                       approvedAt = None, issuedAt = None, wordFilePath = None,
                       headerInfo = headerInfo_ins ins, footerInfo = footerInfo_ins ins,
                       previousVersionId = previousVersionId_ins ins\<rparr>
           in Inr (doc, s\<lparr>documents := documents s @ [doc], nextId := Suc (nextId s)\<rparr>)))"

section \<open>The collaborators outside the store\<close>

text \<open>
  \<^verbatim>\<open>pdfService\<close> and \<^verbatim>\<open>fs\<close> do file and browser I/O; the routes see only what they return or
  throw, so they are parameters. \<^verbatim>\<open>extractHeaderFooterFromWord\<close> catches its own errors and
  always returns the two stamps; the other three can throw.
\<close>

record controlCopyInfo =
  userId_info :: string
  userFullName :: string
  controlCopyNumber :: nat
  date_info :: nat

record env =
  extractHeaderFooterFromWord :: "string \<Rightarrow> string \<times> string"
  saveUploadedFile :: "string \<Rightarrow> string \<Rightarrow> string \<Rightarrow> error + string"
  convertWordToPDF :: "string \<Rightarrow> document \<Rightarrow> controlCopyInfo \<Rightarrow> error + string"
  readFile :: "string \<Rightarrow> error + string"

section \<open>The latest-version resolver\<close>

text \<open>
  \<^verbatim>\<open>allVersions.reduce((latest, current) =>
       current.revisionNo > latest.revisionNo ? current : latest, allVersions[0])\<close>
  as the pdf, print and versions routes write it. On an empty array the initial value
  \<^verbatim>\<open>allVersions[0]\<close> is \<^verbatim>\<open>undefined\<close>, the callback never runs and \<^verbatim>\<open>reduce\<close> returns the
  initial value: \<open>None\<close>.
\<close>

definition latestVersion :: "document list \<Rightarrow> document option" where
  "latestVersion allVersions =
     (case allVersions of
        [] \<Rightarrow> None
      | first # _ \<Rightarrow>
          Some (foldl (\<lambda>latest current.
                         if revisionNo current > revisionNo latest then current else latest)
                      first allVersions))"

section \<open>The workflow routes\<close>

text \<open>
  Each route takes the request (path parameter, body or query), the clock reading that
  \<^verbatim>\<open>new Date()\<close> gives, and the store, and returns the response with the store it leaves.
  A body field that may be missing is an option.
\<close>

record uploadedFile =
  mimetype :: string
  size_file :: nat
  buffer :: string
  originalname :: string

text \<open>\<^verbatim>\<open>revisionNo_b\<close> is the form field as \<^verbatim>\<open>parseInt(req.body.revisionNo, 10)\<close> reads it, \<open>None\<close>
  when the field is missing or empty (the route then takes 0); a field that is not a
  numeral, for which \<^verbatim>\<open>parseInt\<close> gives \<^verbatim>\<open>NaN\<close>, has no value here. The date fields that the
  route computes (\<^verbatim>\<open>dateOfIssue\<close>, \<^verbatim>\<open>duePeriodYears\<close>, \<^verbatim>\<open>reviewDueDate\<close>) and
  \<^verbatim>\<open>reasonForRevision\<close> are stored with the row and read by no route below; the row
  here does not carry them.\<close>

record createBody =
  docName_b :: string
  docNumber_b :: string
  revisionNo_b :: "int option"
  preparedBy_b :: string
  previousVersionId_b :: "string option"

definition allowedMimeTypes :: "string list" where
  "allowedMimeTypes =
     [''application/vnd.openxmlformats-officedocument.wordprocessingml.document'',
      ''application/msword'']"

definition maxSize :: nat where
  "maxSize = 10 * 1024 * 1024"

definition create_route ::
  "env \<Rightarrow> uploadedFile option \<Rightarrow> createBody \<Rightarrow> nat \<Rightarrow> store \<Rightarrow> response \<times> store" where
  \<open>create_route e file body now s =
     (case file of
        None \<Rightarrow> ((400, Message ''Word document file is required''), s)
      | Some f \<Rightarrow>
          if mimetype f \<notin> set allowedMimeTypes
          then ((400, Message ''Only Word documents (.doc, .docx) are allowed''), s)
          else if size_file f > maxSize
          then ((400, Message ''File size must be less than 10MB''), s)
          else
            (let extracted = extractHeaderFooterFromWord e (buffer f);
                 documentData =
                   \<lparr>docName_ins = docName_b body, docNumber_ins = docNumber_b body,
                    revisionNo_ins = (case revisionNo_b body of Some r \<Rightarrow> r | None \<Rightarrow> 0),
                    preparedBy_ins = preparedBy_b body,
                    previousVersionId_ins = previousVersionId_b body,
                    headerInfo_ins = fst extracted, footerInfo_ins = snd extracted\<rparr>
             in case createDocument documentData s of
                  Inl err \<Rightarrow> (internalError err, s)
                | Inr (document, s1) \<Rightarrow>
                    (case saveUploadedFile e (buffer f) (originalname f) (id_doc document) of
                       Inl err \<Rightarrow> (internalError err, s1)
                     | Inr filePath \<Rightarrow>
                         (let s2 = snd (updateDocument (id_doc document)
                                          (\<lambda>d. d\<lparr>wordFilePath := Some filePath\<rparr>) s1);
                              approvers = getUsersByRole ''approver'' s2;
                              s3 = foldl (\<lambda>st approver.
                                            createNotification (id_user approver) (id_doc document)
                                              (''New document "'' @ docName document @ ''" ('' @
                                               docNumber document @ '') is ready for your approval'')
                                              ''new_document'' now st)
                                         s2 approvers
                          in ((201, DocJson (Some (document\<lparr>wordFilePath := Some filePath\<rparr>))), s3)))))\<close>

record approveBody =
  approvalRemarks_b :: "string option"
  approvedBy_b :: "string option"
  approverName_b :: "string option"
  departments_b :: "string list option"

definition approve_route :: "string \<Rightarrow> approveBody \<Rightarrow> nat \<Rightarrow> store \<Rightarrow> response \<times> store" where
  \<open>approve_route idParam body now s =
     (case getDocument idParam s of
        None \<Rightarrow> ((404, Message ''Document not found''), s)
      | Some document \<Rightarrow>
          (let approver = (case approvedBy_b body of None \<Rightarrow> None | Some u \<Rightarrow> getUser u s);
               finalApproverName =
                 (if truthy (approverName_b body) then jsString (approverName_b body)
                  else if truthy (map_option fullName approver)
                  then jsString (map_option fullName approver)
                  else ''Unknown'');
               (updatedDoc, s1) =
                 updateDocument idParam
                   (\<lambda>d. d\<lparr>status := ''approved'', approvalRemarks := approvalRemarks_b body,
                          approvedBy := approvedBy_b body, approvedAt := Some now\<rparr>) s;
               s2 = (case departments_b body of
                       None \<Rightarrow> s1
                     | Some departments \<Rightarrow>
                         if length departments > 0
                         then assignDocumentToDepartments idParam departments s1 else s1);
               issuers = getUsersByRole ''issuer'' s2;
               s3 = foldl (\<lambda>st issuer.
                             createNotification (id_user issuer) idParam
                               (''Document "'' @ docName document @ ''" ('' @ docNumber document @
                                '') has been approved by '' @ finalApproverName @ ''. Remarks: "'' @
                                jsString (approvalRemarks_b body) @ ''"'')
                               ''approved_document'' now st)
                          s2 issuers;
               s4 = createNotification (preparedBy document) idParam
                      (''Your document "'' @ docName document @ ''" ('' @ docNumber document @
                       '') has been approved by '' @ finalApproverName)
                      ''document_status_update'' now s3
           in ((200, DocJson updatedDoc), s4)))\<close>

definition decline_route :: "string \<Rightarrow> string option \<Rightarrow> nat \<Rightarrow> store \<Rightarrow> response \<times> store" where
  \<open>decline_route idParam declineRemarks_b now s =
     (case getDocument idParam s of
        None \<Rightarrow> ((404, Message ''Document not found''), s)
      | Some document \<Rightarrow>
          (let (updatedDoc, s1) =
                 updateDocument idParam
                   (\<lambda>d. d\<lparr>status := ''declined'', declineRemarks := declineRemarks_b,
                          approvedBy := None, issuedBy := None\<rparr>) s;
               s2 = createNotification (preparedBy document) idParam
                      (''Your document "'' @ docName document @ ''" ('' @ docNumber document @
                       '') has been declined by issuer. Remarks: '' @ jsString declineRemarks_b @
                       ''. Please review and resubmit.'')
                      ''document_declined'' now s1
           in ((200, DocJson updatedDoc), s2)))\<close>

record issueBody =
  issuedBy_b :: "string option"
  issuerName_b :: "string option"
  remarks_b :: "string option"

definition issue_route :: "string \<Rightarrow> issueBody \<Rightarrow> nat \<Rightarrow> store \<Rightarrow> response \<times> store" where
  \<open>issue_route idParam body now s =
     (case getDocument idParam s of
        None \<Rightarrow> ((404, Message ''Document not found''), s)
      | Some document \<Rightarrow>
          (let (updatedDoc, s1) =
                 updateDocument idParam
                   (\<lambda>d. d\<lparr>status := ''issued'', issuedBy := issuedBy_b body,
                          issuerName := issuerName_b body, issueRemarks := remarks_b body,
                          issuedAt := Some now\<rparr>) s;
               s2 = createNotification (preparedBy document) idParam
                      (''Your document "'' @ docName document @ ''" ('' @ docNumber document @
                       '') has been issued by '' @ jsString (issuerName_b body))
                      ''document_issued'' now s1;
               s3 = (if truthy (approvedBy document)
                     then createNotification (jsString (approvedBy document)) idParam
                            (''Document "'' @ docName document @ ''" ('' @ docNumber document @
                             '') has been issued'')
                            ''document_issued'' now s2
                     else s2)
           in ((200, DocJson updatedDoc), s3)))\<close>

text \<open>\<^verbatim>\<open>POST /api/documents/:id/upload\<close>, the other route that writes a Document row.\<close>

definition upload_route ::
  "env \<Rightarrow> string \<Rightarrow> uploadedFile option \<Rightarrow> store \<Rightarrow> response \<times> store" where
  "upload_route e idParam file s =
     (case file of
        None \<Rightarrow> ((400, Message ''No file uploaded''), s)
      | Some f \<Rightarrow>
          (case getDocument idParam s of
             None \<Rightarrow> ((404, Message ''Document not found''), s)
           | Some document \<Rightarrow>
               (case saveUploadedFile e (buffer f) (originalname f) idParam of
                  Inl err \<Rightarrow> (internalError err, s)
                | Inr filePath \<Rightarrow>
                    (let (updatedDoc, s1) =
                           updateDocument idParam (\<lambda>d. d\<lparr>wordFilePath := Some filePath\<rparr>) s
                     in ((200, MessageDocJson ''File uploaded successfully'' updatedDoc), s1)))))"

section \<open>The distribution routes\<close>

text \<open>
  The \<^verbatim>\<open>version\<close> parameter as the routes read it: missing (\<^verbatim>\<open>version === undefined\<close>), present
  but not a numeral (\<^verbatim>\<open>isNaN(parseInt(version, 10))\<close>), or the integer \<^verbatim>\<open>parseInt\<close> gives.
\<close>

datatype versionParam = VersionOmitted | VersionNaN | VersionInt int

text \<open>\<^verbatim>\<open>GET /api/documents/:id/pdf\<close> from the status check on (lines 530 to 562): the checks on
  the resolved document, the control copy, then the rendering and the read of its result.\<close>

definition pdf_distribute ::
  "env \<Rightarrow> user \<Rightarrow> string \<Rightarrow> document \<Rightarrow> nat \<Rightarrow> store \<Rightarrow> response \<times> store" where
  "pdf_distribute e usr uid document now s =
     (if status document \<noteq> ''issued''
      then ((403, Message ''Only issued documents can be viewed as PDF''), s)
      else if \<not> truthy (wordFilePath document)
      then ((404, Message ''No Word file uploaded for this document''), s)
      else
        (let (controlCopy, s1) = createControlCopy (id_doc document) uid ''view'' now s;
             controlCopyInfo =
               \<lparr>userId_info = id_user usr, userFullName = fullName usr,
                controlCopyNumber = copyNumber controlCopy, date_info = now\<rparr>
         in case convertWordToPDF e (jsString (wordFilePath document)) document controlCopyInfo of
              Inl err \<Rightarrow> (internalError err, s1)
            | Inr pdfPath \<Rightarrow>
                (case readFile e pdfPath of
                   Inl err \<Rightarrow> (internalError err, s1)
                 | Inr pdfBuffer \<Rightarrow> ((200, PdfBuffer pdfBuffer), s1))))"

definition pdf_route ::
  "env \<Rightarrow> string \<Rightarrow> string option \<Rightarrow> versionParam \<Rightarrow> nat \<Rightarrow> store \<Rightarrow> response \<times> store" where
  "pdf_route e idParam userId version now s =
     (if \<not> truthy userId then ((400, Message ''userId query parameter is required''), s)
      else
        (case getUser (jsString userId) s of
           None \<Rightarrow> ((404, Message ''User not found''), s)
         | Some usr \<Rightarrow>
             (case getDocument idParam s of
                None \<Rightarrow> ((404, Message ''Document not found''), s)
              | Some document \<Rightarrow>
                  (let originalDocNumber = docNumber document;
                       allIssuedDocs = getDocumentsByStatus ''issued'' s;
                       allVersions = filter (\<lambda>d. docNumber d = originalDocNumber) allIssuedDocs
                   in if length allVersions = 0
                      then ((404, Message ''No issued versions found for this document''), s)
                      else
                        (case version of
                           VersionNaN \<Rightarrow> ((400, Message ''Invalid version parameter''), s)
                         | VersionInt requestedVersion \<Rightarrow>
                             if \<not> masterCopyAccess usr
                             then ((403, Message ''Access denied. Only master copy users can access specific versions.''), s)
                             else
                               (case find (\<lambda>d. revisionNo d = requestedVersion) allVersions of
                                  None \<Rightarrow>
                                    ((404, Message (''Version '' @ showInt requestedVersion @ '' not found'')), s)
                                | Some requestedDoc \<Rightarrow>
                                    pdf_distribute e usr (jsString userId)
                                      (case getDocument (id_doc requestedDoc) s of
                                         Some d \<Rightarrow> d | None \<Rightarrow> requestedDoc)
                                      now s)
                         | VersionOmitted \<Rightarrow>
                             if \<not> masterCopyAccess usr
                             then
                               (case latestVersion allVersions of
                                  None \<Rightarrow>
                                    (internalError (IOError ''Cannot read properties of undefined (reading 'id')''), s)
                                | Some latest \<Rightarrow>
                                    if id_doc document \<noteq> id_doc latest
                                    then ((403, Message ''Access denied. Only the latest version can be accessed. Please contact administrator for previous versions.''), s)
                                    else pdf_distribute e usr (jsString userId) document now s)
                             else pdf_distribute e usr (jsString userId) document now s)))))"

text \<open>\<^verbatim>\<open>POST /api/documents/:id/print\<close> from the status check on (lines 622 to 661): as for
  the view, with the PrintLog row written after the control copy and before the
  rendering.\<close>

definition print_distribute ::
  "env \<Rightarrow> user \<Rightarrow> string \<Rightarrow> document \<Rightarrow> nat \<Rightarrow> store \<Rightarrow> response \<times> store" where
  "print_distribute e usr uid document now s =
     (if status document \<noteq> ''issued''
      then ((403, Message ''Only issued documents can be printed''), s)
      else if \<not> truthy (wordFilePath document)
      then ((404, Message ''No Word file uploaded for this document''), s)
      else
        (let (controlCopy, s1) = createControlCopy (id_doc document) uid ''print'' now s;
             (printLog, s2) =
               createPrintLog (id_doc document) uid (id_cc controlCopy) ''PDF'' now s1;
             controlCopyInfo =
               \<lparr>userId_info = id_user usr, userFullName = fullName usr,
                controlCopyNumber = copyNumber controlCopy, date_info = now\<rparr>
         in case convertWordToPDF e (jsString (wordFilePath document)) document controlCopyInfo of
              Inl err \<Rightarrow> (internalError err, s2)
            | Inr pdfPath \<Rightarrow>
                (case readFile e pdfPath of
                   Inl err \<Rightarrow> (internalError err, s2)
                 | Inr pdfBuffer \<Rightarrow> ((200, PdfBuffer pdfBuffer), s2))))"

definition print_route ::
  "env \<Rightarrow> string \<Rightarrow> string option \<Rightarrow> versionParam \<Rightarrow> nat \<Rightarrow> store \<Rightarrow> response \<times> store" where
  "print_route e idParam userId version now s =
     (if \<not> truthy userId then ((400, Message ''userId is required''), s)
      else
        (case getUser (jsString userId) s of
           None \<Rightarrow> ((404, Message ''User not found''), s)
         | Some usr \<Rightarrow>
             (case getDocument idParam s of
                None \<Rightarrow> ((404, Message ''Document not found''), s)
              | Some document \<Rightarrow>
                  (let originalDocNumber = docNumber document;
                       allIssuedDocs = getDocumentsByStatus ''issued'' s;
                       allVersions = filter (\<lambda>d. docNumber d = originalDocNumber) allIssuedDocs
                   in if length allVersions = 0
                      then ((404, Message ''No issued versions found for this document''), s)
                      else
                        (case version of
                           VersionNaN \<Rightarrow> ((400, Message ''Invalid version parameter''), s)
                         | VersionInt requestedVersion \<Rightarrow>
                             if \<not> masterCopyAccess usr
                             then ((403, Message ''Access denied. Only master copy users can print specific versions.''), s)
                             else
                               (case find (\<lambda>d. revisionNo d = requestedVersion) allVersions of
                                  None \<Rightarrow>
                                    ((404, Message (''Version '' @ showInt requestedVersion @ '' not found'')), s)
                                | Some requestedDoc \<Rightarrow>
                                    print_distribute e usr (jsString userId)
                                      (case getDocument (id_doc requestedDoc) s of
                                         Some d \<Rightarrow> d | None \<Rightarrow> requestedDoc)
                                      now s)
                         | VersionOmitted \<Rightarrow>
                             if \<not> masterCopyAccess usr
                             then
                               (case latestVersion allVersions of
                                  None \<Rightarrow>
                                    (internalError (IOError ''Cannot read properties of undefined (reading 'id')''), s)
                                | Some latest \<Rightarrow>
                                    if id_doc document \<noteq> id_doc latest
                                    then ((403, Message ''Access denied. Only the latest version can be printed. Please contact administrator for previous versions.''), s)
                                    else print_distribute e usr (jsString userId) document now s)
                             else print_distribute e usr (jsString userId) document now s)))))"

section \<open>GET /api/documents/:docNumber/versions\<close>

definition versions_route :: "string \<Rightarrow> string option \<Rightarrow> store \<Rightarrow> response" where
  "versions_route docNumberParam userId s =
     (if \<not> truthy userId then (400, Message ''userId query parameter is required'')
      else
        (case getUser (jsString userId) s of
           None \<Rightarrow> (404, Message ''User not found'')
         | Some usr \<Rightarrow>
             (let allDocuments = getDocumentsByStatus ''issued'' s;
                  documentVersions = filter (\<lambda>d. docNumber d = docNumberParam) allDocuments
              in if masterCopyAccess usr then (200, DocsJson (map Some documentVersions))
                 else (200, DocsJson [latestVersion documentVersions]))))"

section \<open>Sequences of requests\<close>

text \<open>A sequence of ledger calls \<^verbatim>\<open>storage.createControlCopy({documentId, userId, actionType})\<close>,
  run one after the other, with the rows they return in call order.\<close>

fun issueCopies ::
  "(string \<times> string \<times> string) list \<Rightarrow> nat \<Rightarrow> store \<Rightarrow> controlCopy list \<times> store" where
  "issueCopies [] now s = ([], s)"
| "issueCopies ((did, uid, action) # calls) now s =
     (let (cc, s1) = createControlCopy did uid action now s;
          (ccs, s2) = issueCopies calls now s1
      in (cc # ccs, s2))"

text \<open>The requests that reach a route writing to the store, and the states they lead to
  from a store that holds no document yet.\<close>

datatype request =
    CreateReq "uploadedFile option" createBody
  | ApproveReq string approveBody
  | DeclineReq string "string option"
  | IssueReq string issueBody
  | UploadReq string "uploadedFile option"
  | PdfReq string "string option" versionParam
  | PrintReq string "string option" versionParam

fun handle :: "env \<Rightarrow> request \<Rightarrow> nat \<Rightarrow> store \<Rightarrow> response \<times> store" where
  "handle e (CreateReq file body) now s = create_route e file body now s"
| "handle e (ApproveReq i body) now s = approve_route i body now s"
| "handle e (DeclineReq i remarks) now s = decline_route i remarks now s"
| "handle e (IssueReq i body) now s = issue_route i body now s"
| "handle e (UploadReq i file) now s = upload_route e i file s"
| "handle e (PdfReq i userId version) now s = pdf_route e i userId version now s"
| "handle e (PrintReq i userId version) now s = print_route e i userId version now s"

inductive reachable :: "env \<Rightarrow> store \<Rightarrow> bool" for e :: env where
  initial: "documents s = [] \<Longrightarrow> reachable e s"
| step: "reachable e s \<Longrightarrow> reachable e (snd (handle e r now s))"

definition revisionKeys :: "store \<Rightarrow> (string \<times> int) list" where
  "revisionKeys s = map (\<lambda>d. (docNumber d, revisionNo d)) (documents s)"

section \<open>Example data\<close>

definition exampleDoc ::
  "string \<Rightarrow> string \<Rightarrow> int \<Rightarrow> string \<Rightarrow> string \<Rightarrow> string option \<Rightarrow> document" where
  "exampleDoc i num r st prep appr =
     \<lparr>id_doc = i, docName = ''Quality Manual'', docNumber = num, revisionNo = r, status = st,
      preparedBy = prep, approvedBy = appr, issuedBy = None, issuerName = None,
      approvalRemarks = None, declineRemarks = None, issueRemarks = None,
      approvedAt = None, issuedAt = None, wordFilePath = Some ''uploads/manual.docx'',
      headerInfo = ''Document Header'', footerInfo = ''Document Footer'',
      previousVersionId = None\<rparr>"

definition exampleUser :: "string \<Rightarrow> string \<Rightarrow> bool \<Rightarrow> user" where
  "exampleUser i r master =
     \<lparr>id_user = i, username = i, password = ''secret'', role = r, fullName = ''User '' @ i,
      masterCopyAccess = master\<rparr>"

text \<open>QA-001 with the issued revisions 0 and 1, a pending QA-002, and an approved QA-003
  that its preparer also approved.\<close>

definition exampleStore :: store where
  "exampleStore =
     \<lparr>documents =
        [exampleDoc ''d0'' ''QA-001'' 0 ''issued'' ''creator-1'' (Some ''approver-1''),
         exampleDoc ''d1'' ''QA-001'' 1 ''issued'' ''creator-1'' (Some ''approver-1''),
         exampleDoc ''d2'' ''QA-002'' 0 ''pending'' ''creator-1'' None,
         exampleDoc ''d3'' ''QA-003'' 0 ''approved'' ''creator-1'' (Some ''creator-1'')],
      users =
        [exampleUser ''creator-1'' ''creator'' False,
         exampleUser ''approver-1'' ''approver'' False,
         exampleUser ''issuer-1'' ''issuer'' False,
         exampleUser ''recipient-1'' ''recipient'' False,
         exampleUser ''admin-1'' ''admin'' True],
      notifications = [], controlCopies = [], printLogs = [], documentDepartments = [],
      nextId = 4\<rparr>"

definition exampleEnv :: env where
  "exampleEnv =
     \<lparr>extractHeaderFooterFromWord = (\<lambda>b. (''Document Header'', ''Document Footer'')),
      saveUploadedFile = (\<lambda>b n i. Inr (''uploads/'' @ i @ ''_'' @ n)),
      convertWordToPDF = (\<lambda>p d info. Inr ''pdfs/out.pdf''),
      readFile = (\<lambda>p. Inr ''%PDF'')\<rparr>"

text \<open>The same collaborators with a rendering that fails.\<close>

definition failingEnv :: env where
  "failingEnv =
     exampleEnv\<lparr>convertWordToPDF := (\<lambda>p d info. Inl (IOError ''Chromium not found in PATH''))\<rparr>"

definition exampleFile :: uploadedFile where
  "exampleFile = \<lparr>mimetype = ''application/msword'', size_file = 2048,
                  buffer = ''content'', originalname = ''manual.doc''\<rparr>"

text \<open>An issue request, and an approval whose remarks are empty and whose \<^verbatim>\<open>approvedBy\<close>
  names no user.\<close>

definition exampleIssueBody :: issueBody where
  "exampleIssueBody = \<lparr>issuedBy_b = Some ''issuer-1'', issuerName_b = Some ''User issuer-1'',
                        remarks_b = None\<rparr>"

definition emptyRemarksApproval :: approveBody where
  "emptyRemarksApproval = \<lparr>approvalRemarks_b = Some [], approvedBy_b = Some ''nobody'',
                            approverName_b = None, departments_b = None\<rparr>"

text \<open>The seeded store before any document is created, and a creation request.\<close>

definition seededStore :: store where
  "seededStore = exampleStore\<lparr>documents := []\<rparr>"

definition exampleCreateBody :: createBody where
  "exampleCreateBody = \<lparr>docName_b = ''Quality Manual'', docNumber_b = ''QA-001'',
                         revisionNo_b = None, preparedBy_b = ''creator-1'',
                         previousVersionId_b = None\<rparr>"

section \<open>Facts about the storage layer\<close>

lemma find_map_merge:
  assumes "\<And>d. id_doc (upd d) = id_doc d"
  shows "find (\<lambda>d. id_doc d = i) (map (\<lambda>d. if id_doc d = i then upd d else d) ds)
           = map_option upd (find (\<lambda>d. id_doc d = i) ds)"
  using assms by (induction ds) auto

lemma updateDocument_result:
  assumes "\<And>d. id_doc (upd d) = id_doc d"
  shows "fst (updateDocument i upd s) = map_option upd (getDocument i s)"
    and "getDocument i (snd (updateDocument i upd s)) = map_option upd (getDocument i s)"
  using assms by (simp_all add: updateDocument_def getDocument_def Let_def find_map_merge)

lemma updateDocument_other_fields:
  "users (snd (updateDocument i upd s)) = users s"
  "notifications (snd (updateDocument i upd s)) = notifications s"
  "controlCopies (snd (updateDocument i upd s)) = controlCopies s"
  "printLogs (snd (updateDocument i upd s)) = printLogs s"
  "nextId (snd (updateDocument i upd s)) = nextId s"
  "documents (snd (updateDocument i upd s)) = map (\<lambda>d. if id_doc d = i then upd d else d) (documents s)"
  by (simp_all add: updateDocument_def Let_def)

lemma createNotification_fields:
  "documents (createNotification uid did msg ty now s) = documents s"
  "users (createNotification uid did msg ty now s) = users s"
  "controlCopies (createNotification uid did msg ty now s) = controlCopies s"
  "printLogs (createNotification uid did msg ty now s) = printLogs s"
  "map userId_notif (notifications (createNotification uid did msg ty now s))
     = map userId_notif (notifications s) @ [uid]"
  "length (notifications (createNotification uid did msg ty now s)) = Suc (length (notifications s))"
  by (simp_all add: createNotification_def)

lemma createNotification_lookups:
  "getDocument j (createNotification uid did msg ty now s) = getDocument j s"
  "getUsersByRole r (createNotification uid did msg ty now s) = getUsersByRole r s"
  by (simp_all add: getDocument_def getUsersByRole_def createNotification_fields)

lemma assign_fields:
  "documents (assignDocumentToDepartments i ds s) = documents s"
  "users (assignDocumentToDepartments i ds s) = users s"
  "notifications (assignDocumentToDepartments i ds s) = notifications s"
  by (simp_all add: assignDocumentToDepartments_def)

lemma notify_all_fields:
  "documents (foldl (\<lambda>st u. createNotification (id_user u) did msg ty now st) s us) = documents s"
  "users (foldl (\<lambda>st u. createNotification (id_user u) did msg ty now st) s us) = users s"
  "map userId_notif (notifications (foldl (\<lambda>st u. createNotification (id_user u) did msg ty now st) s us))
     = map userId_notif (notifications s) @ map id_user us"
  "length (notifications (foldl (\<lambda>st u. createNotification (id_user u) did msg ty now st) s us))
     = length (notifications s) + length us"
  by (induction us arbitrary: s) (simp_all add: createNotification_fields)

section \<open>Facts about the example data\<close>

lemma example_documents:
  "getDocument ''d0'' exampleStore = Some (exampleDoc ''d0'' ''QA-001'' 0 ''issued'' ''creator-1'' (Some ''approver-1''))"
  "getDocument ''d1'' exampleStore = Some (exampleDoc ''d1'' ''QA-001'' 1 ''issued'' ''creator-1'' (Some ''approver-1''))"
  "getDocument ''d2'' exampleStore = Some (exampleDoc ''d2'' ''QA-002'' 0 ''pending'' ''creator-1'' None)"
  "getDocument ''d3'' exampleStore = Some (exampleDoc ''d3'' ''QA-003'' 0 ''approved'' ''creator-1'' (Some ''creator-1''))"
  by (simp_all add: getDocument_def exampleStore_def exampleDoc_def)

lemma example_users:
  "getUser ''recipient-1'' exampleStore = Some (exampleUser ''recipient-1'' ''recipient'' False)"
  "getUser ''admin-1'' exampleStore = Some (exampleUser ''admin-1'' ''admin'' True)"
  "getUser ''nobody'' exampleStore = None"
  "getUsersByRole ''issuer'' exampleStore = [exampleUser ''issuer-1'' ''issuer'' False]"
  "getUsersByRole ''approver'' exampleStore = [exampleUser ''approver-1'' ''approver'' False]"
  by (simp_all add: getUser_def getUsersByRole_def exampleStore_def exampleUser_def)

lemma example_notifications: "notifications exampleStore = []"
  by (simp add: exampleStore_def)

lemma example_QA001:
  "filter (\<lambda>x. docNumber x = ''QA-001'') (getDocumentsByStatus ''issued'' exampleStore) =
     [exampleDoc ''d0'' ''QA-001'' 0 ''issued'' ''creator-1'' (Some ''approver-1''),
      exampleDoc ''d1'' ''QA-001'' 1 ''issued'' ''creator-1'' (Some ''approver-1'')]"
  "latestVersion [exampleDoc ''d0'' ''QA-001'' 0 ''issued'' ''creator-1'' (Some ''approver-1''),
      exampleDoc ''d1'' ''QA-001'' 1 ''issued'' ''creator-1'' (Some ''approver-1'')] =
     Some (exampleDoc ''d1'' ''QA-001'' 1 ''issued'' ''creator-1'' (Some ''approver-1''))"
  by (simp_all add: getDocumentsByStatus_def exampleStore_def exampleDoc_def latestVersion_def)

lemma example_facts:
  "truthy (Some ''recipient-1'')"
  "\<not> masterCopyAccess (exampleUser ''recipient-1'' ''recipient'' False)"
  "docNumber (exampleDoc i num r st p a) = num"
  "id_doc (exampleDoc i num r st p a) = i"
  "revisionNo (exampleDoc i num r st p a) = r"
  "status (exampleDoc i num r st p a) = st"
  "wordFilePath (exampleDoc i num r st p a) = Some ''uploads/manual.docx''"
  by (simp_all add: truthy_def exampleUser_def exampleDoc_def)

lemma example_ledger: "controlCopies exampleStore = []" "printLogs exampleStore = []"
  by (simp_all add: exampleStore_def)

lemma failingEnv_render:
  "convertWordToPDF failingEnv p d info = Inl (IOError ''Chromium not found in PATH'')"
  by (simp add: failingEnv_def)

section \<open>The control copy ledger\<close>

lemma createControlCopy_row:
  "fst (createControlCopy did uid action now s) =
     \<lparr>id_cc = freshId s, documentId_cc = did, userId_cc = uid, actionType = action,
      copyNumber = Suc (length (filter (\<lambda>c. documentId_cc c = did) (controlCopies s))),
      issuedAt_cc = now\<rparr>"
  by (simp add: createControlCopy_def Let_def)

lemma createControlCopy_store:
  "snd (createControlCopy did uid action now s) =
     s\<lparr>controlCopies := controlCopies s @ [fst (createControlCopy did uid action now s)],
       nextId := Suc (nextId s)\<rparr>"
  by (simp add: createControlCopy_def Let_def)

lemma issueCopies_Cons:
  "issueCopies ((did, uid, action) # calls) now s =
     (fst (createControlCopy did uid action now s)
        # fst (issueCopies calls now (snd (createControlCopy did uid action now s))),
      snd (issueCopies calls now (snd (createControlCopy did uid action now s))))"
  by (simp add: case_prod_beta Let_def)

lemma upt_shift: "[Suc k..<Suc (k + Suc m)] = Suc k # [Suc (Suc k)..<Suc (Suc k + m)]"
  by (simp add: upt_conv_Cons del: upt_Suc)

text \<open>
  Claim C1. For every document id \<open>d\<close> and every sequence of ledger calls, run one after
  the other from a store in which \<open>k\<close> copies were already issued for \<open>d\<close>, the
  \<^verbatim>\<open>copyNumber\<close> values returned by \<^verbatim>\<open>storage.createControlCopy\<close> for \<open>d\<close> are, in call
  order, \<open>k + 1, ..., k + m\<close>, where \<open>m\<close> is the number of calls against \<open>d\<close>: each
  number once, without gaps, strictly increasing, whatever calls against other documents
  come in between.
\<close>

theorem copyNumbers_consecutive:
  "map copyNumber (filter (\<lambda>c. documentId_cc c = d) (fst (issueCopies calls now s))) =
     [Suc (length (filter (\<lambda>c. documentId_cc c = d) (controlCopies s)))
        ..< Suc (length (filter (\<lambda>c. documentId_cc c = d) (controlCopies s))
                 + length (filter (\<lambda>call. fst call = d) calls))]"
proof (induction calls arbitrary: s)
  case Nil
  show ?case by simp
next
  case (Cons call calls)
  obtain did uid action where call: "call = (did, uid, action)"
    by (cases call) auto
  let ?s1 = "snd (createControlCopy did uid action now s)"
  let ?k = "length (filter (\<lambda>c. documentId_cc c = d) (controlCopies s))"
  note ih = Cons.IH[of ?s1]
  show ?case
  proof (cases "did = d")
    case True
    have k1: "length (filter (\<lambda>c. documentId_cc c = d) (controlCopies ?s1)) = Suc ?k"
      using True by (simp add: createControlCopy_store createControlCopy_row)
    have m: "length (filter (\<lambda>c. fst c = d) (call # calls)) = Suc (length (filter (\<lambda>c. fst c = d) calls))"
      using True by (simp add: call)
    have "map copyNumber (filter (\<lambda>c. documentId_cc c = d) (fst (issueCopies (call # calls) now s)))
          = Suc ?k # map copyNumber (filter (\<lambda>c. documentId_cc c = d) (fst (issueCopies calls now ?s1)))"
      using True unfolding call issueCopies_Cons by (simp add: createControlCopy_row)
    also have "\<dots> = Suc ?k # [Suc (Suc ?k)..<Suc (Suc ?k + length (filter (\<lambda>c. fst c = d) calls))]"
      unfolding ih k1 ..
    also have "\<dots> = [Suc ?k..<Suc (?k + length (filter (\<lambda>c. fst c = d) (call # calls)))]"
      unfolding m upt_shift ..
    finally show ?thesis .
  next
    case False
    have k1: "length (filter (\<lambda>c. documentId_cc c = d) (controlCopies ?s1)) = ?k"
      using False by (simp add: createControlCopy_store createControlCopy_row)
    have m: "length (filter (\<lambda>c. fst c = d) (call # calls)) = length (filter (\<lambda>c. fst c = d) calls)"
      using False by (simp add: call)
    have "map copyNumber (filter (\<lambda>c. documentId_cc c = d) (fst (issueCopies (call # calls) now s)))
          = map copyNumber (filter (\<lambda>c. documentId_cc c = d) (fst (issueCopies calls now ?s1)))"
      using False unfolding call issueCopies_Cons by (simp add: createControlCopy_row)
    also have "\<dots> = [Suc ?k..<Suc (?k + length (filter (\<lambda>c. fst c = d) (call # calls)))]"
      unfolding ih k1 m ..
    finally show ?thesis .
  qed
qed

theorem copyNumbers_consecutive_witness:
  "map copyNumber (filter (\<lambda>c. documentId_cc c = ''d1'')
     (fst (issueCopies [(''d1'', ''recipient-1'', ''view''), (''d0'', ''admin-1'', ''print''),
                        (''d1'', ''admin-1'', ''print'')] 7 exampleStore))) = [1, 2]"
  using copyNumbers_consecutive[of "''d1''" "[(''d1'', ''recipient-1'', ''view''), (''d0'', ''admin-1'', ''print''),
                        (''d1'', ''admin-1'', ''print'')]" 7 exampleStore]
  by (simp add: exampleStore_def)

section \<open>Version resolution\<close>

lemma foldl_latest:
  "(foldl (\<lambda>latest current. if revisionNo current > revisionNo latest then current else latest) (a::document) xs = a
      \<and> (\<forall>x\<in>set xs. revisionNo x \<le> revisionNo a))
   \<or> (\<exists>ys r zs.
        foldl (\<lambda>latest current. if revisionNo current > revisionNo latest then current else latest) a xs = r
        \<and> xs = ys @ r # zs \<and> revisionNo a < revisionNo r
        \<and> (\<forall>y\<in>set ys. revisionNo y < revisionNo r)
        \<and> (\<forall>z\<in>set zs. revisionNo z \<le> revisionNo r))"
proof (induction xs arbitrary: a)
  case Nil
  show ?case by simp
next
  case (Cons x xs)
  let ?step = "\<lambda>latest current. if revisionNo current > revisionNo latest then current else (latest::document)"
  show ?case
  proof (cases "revisionNo x > revisionNo a")
    case True
    from Cons.IH[of x] show ?thesis
    proof
      assume h: "foldl ?step x xs = x \<and> (\<forall>y\<in>set xs. revisionNo y \<le> revisionNo x)"
      have "foldl ?step a (x # xs) = x \<and> x # xs = [] @ x # xs \<and> revisionNo a < revisionNo x
            \<and> (\<forall>y\<in>set []. revisionNo y < revisionNo x) \<and> (\<forall>z\<in>set xs. revisionNo z \<le> revisionNo x)"
        using True h by simp
      then show ?thesis by blast
    next
      assume "\<exists>ys r zs. foldl ?step x xs = r \<and> xs = ys @ r # zs \<and> revisionNo x < revisionNo r
        \<and> (\<forall>y\<in>set ys. revisionNo y < revisionNo r) \<and> (\<forall>z\<in>set zs. revisionNo z \<le> revisionNo r)"
      then obtain ys r zs where h: "foldl ?step x xs = r" "xs = ys @ r # zs" "revisionNo x < revisionNo r"
        "\<forall>y\<in>set ys. revisionNo y < revisionNo r" "\<forall>z\<in>set zs. revisionNo z \<le> revisionNo r"
        by blast
      have "foldl ?step a (x # xs) = r \<and> x # xs = (x # ys) @ r # zs \<and> revisionNo a < revisionNo r
            \<and> (\<forall>y\<in>set (x # ys). revisionNo y < revisionNo r) \<and> (\<forall>z\<in>set zs. revisionNo z \<le> revisionNo r)"
        using True h by simp
      then show ?thesis by blast
    qed
  next
    case False
    from Cons.IH[of a] show ?thesis
    proof
      assume h: "foldl ?step a xs = a \<and> (\<forall>y\<in>set xs. revisionNo y \<le> revisionNo a)"
      then show ?thesis using False by simp
    next
      assume "\<exists>ys r zs. foldl ?step a xs = r \<and> xs = ys @ r # zs \<and> revisionNo a < revisionNo r
        \<and> (\<forall>y\<in>set ys. revisionNo y < revisionNo r) \<and> (\<forall>z\<in>set zs. revisionNo z \<le> revisionNo r)"
      then obtain ys r zs where h: "foldl ?step a xs = r" "xs = ys @ r # zs" "revisionNo a < revisionNo r"
        "\<forall>y\<in>set ys. revisionNo y < revisionNo r" "\<forall>z\<in>set zs. revisionNo z \<le> revisionNo r"
        by blast
      have "foldl ?step a (x # xs) = r \<and> x # xs = (x # ys) @ r # zs \<and> revisionNo a < revisionNo r
            \<and> (\<forall>y\<in>set (x # ys). revisionNo y < revisionNo r) \<and> (\<forall>z\<in>set zs. revisionNo z \<le> revisionNo r)"
        using False h by simp
      then show ?thesis by blast
    qed
  qed
qed

text \<open>
  Claim C9. On a non-empty revision set the latest-version resolver of the pdf, print and
  versions routes never fails, and the row it returns is the earliest one in listing
  order that attains the maximal \<^verbatim>\<open>revisionNo\<close>: every row listed before it has a strictly
  smaller \<^verbatim>\<open>revisionNo\<close> and no row listed after it has a greater one. With several rows
  at the maximum, the first of them is returned.
\<close>

theorem latestVersion_earliest_maximal:
  assumes "allVersions \<noteq> []"
  shows "\<exists>ys r zs. latestVersion allVersions = Some r \<and> allVersions = ys @ r # zs
           \<and> (\<forall>y\<in>set ys. revisionNo y < revisionNo r)
           \<and> (\<forall>z\<in>set zs. revisionNo z \<le> revisionNo r)"
proof -
  from assms obtain first rest where eq: "allVersions = first # rest"
    by (cases allVersions) auto
  let ?step = "\<lambda>latest current. if revisionNo current > revisionNo latest then current else (latest::document)"
  have lv: "latestVersion allVersions = Some (foldl ?step first rest)"
    by (simp add: latestVersion_def eq)
  from foldl_latest[of first rest] show ?thesis
  proof
    assume "foldl ?step first rest = first \<and> (\<forall>x\<in>set rest. revisionNo x \<le> revisionNo first)"
    then have "latestVersion allVersions = Some first \<and> allVersions = [] @ first # rest
           \<and> (\<forall>y\<in>set []. revisionNo y < revisionNo first)
           \<and> (\<forall>z\<in>set rest. revisionNo z \<le> revisionNo first)"
      using lv eq by simp
    then show ?thesis by blast
  next
    assume "\<exists>ys r zs. foldl ?step first rest = r \<and> rest = ys @ r # zs \<and> revisionNo first < revisionNo r
        \<and> (\<forall>y\<in>set ys. revisionNo y < revisionNo r) \<and> (\<forall>z\<in>set zs. revisionNo z \<le> revisionNo r)"
    then obtain ys r zs where h: "foldl ?step first rest = r" "rest = ys @ r # zs" "revisionNo first < revisionNo r"
        "\<forall>y\<in>set ys. revisionNo y < revisionNo r" "\<forall>z\<in>set zs. revisionNo z \<le> revisionNo r"
      by blast
    have "latestVersion allVersions = Some r \<and> allVersions = (first # ys) @ r # zs
           \<and> (\<forall>y\<in>set (first # ys). revisionNo y < revisionNo r)
           \<and> (\<forall>z\<in>set zs. revisionNo z \<le> revisionNo r)"
      using lv eq h by simp
    then show ?thesis by blast
  qed
qed

theorem latestVersion_earliest_maximal_witness:
  "[exampleDoc ''d1'' ''QA-001'' 1 ''issued'' ''creator-1'' None,
    exampleDoc ''d9'' ''QA-001'' 1 ''issued'' ''creator-1'' None] \<noteq> [] \<and>
   (\<exists>ys r zs.
      latestVersion [exampleDoc ''d1'' ''QA-001'' 1 ''issued'' ''creator-1'' None,
                     exampleDoc ''d9'' ''QA-001'' 1 ''issued'' ''creator-1'' None] = Some r
      \<and> [exampleDoc ''d1'' ''QA-001'' 1 ''issued'' ''creator-1'' None,
          exampleDoc ''d9'' ''QA-001'' 1 ''issued'' ''creator-1'' None] = ys @ r # zs
      \<and> (\<forall>y\<in>set ys. revisionNo y < revisionNo r)
      \<and> (\<forall>z\<in>set zs. revisionNo z \<le> revisionNo r))"
  using latestVersion_earliest_maximal
          [of "[exampleDoc ''d1'' ''QA-001'' 1 ''issued'' ''creator-1'' None,
                exampleDoc ''d9'' ''QA-001'' 1 ''issued'' ''creator-1'' None]"]
  by simp

lemma latestVersion_tie_example:
  "latestVersion [exampleDoc ''d1'' ''QA-001'' 1 ''issued'' ''creator-1'' None,
                  exampleDoc ''d9'' ''QA-001'' 1 ''issued'' ''creator-1'' None]
     = Some (exampleDoc ''d1'' ''QA-001'' 1 ''issued'' ''creator-1'' None)"
  by (simp add: latestVersion_def exampleDoc_def)

text \<open>
  Claim C10. For every existing user without master copy access who asks for the version
  list of a docNumber with no issued revision, the versions route answers 200 with a
  one-element array whose element is \<^verbatim>\<open>null\<close> (the fold over the empty set gives
  \<^verbatim>\<open>undefined\<close>), not a 404 and not an empty list.
\<close>

theorem versions_of_unissued_docNumber:
  assumes "truthy (Some uid)" and "getUser uid s = Some usr" and "\<not> masterCopyAccess usr"
    and "filter (\<lambda>d. docNumber d = dn) (getDocumentsByStatus ''issued'' s) = []"
  shows "versions_route dn (Some uid) s = (200, DocsJson [None])"
  using assms by (simp add: versions_route_def latestVersion_def jsString_def)

theorem versions_of_unissued_docNumber_witness:
  "truthy (Some ''recipient-1'')
   \<and> getUser ''recipient-1'' exampleStore = Some (exampleUser ''recipient-1'' ''recipient'' False)
   \<and> \<not> masterCopyAccess (exampleUser ''recipient-1'' ''recipient'' False)
   \<and> filter (\<lambda>d. docNumber d = ''QA-002'') (getDocumentsByStatus ''issued'' exampleStore) = []
   \<and> versions_route ''QA-002'' (Some ''recipient-1'') exampleStore = (200, DocsJson [None])"
proof -
  have h1: "truthy (Some ''recipient-1'')" by (simp add: truthy_def)
  have h2: "getUser ''recipient-1'' exampleStore = Some (exampleUser ''recipient-1'' ''recipient'' False)"
    by (simp add: getUser_def exampleStore_def exampleUser_def)
  have h3: "\<not> masterCopyAccess (exampleUser ''recipient-1'' ''recipient'' False)"
    by (simp add: exampleUser_def)
  have h4: "filter (\<lambda>d. docNumber d = ''QA-002'') (getDocumentsByStatus ''issued'' exampleStore) = []"
    by (simp add: getDocumentsByStatus_def exampleStore_def exampleDoc_def)
  from versions_of_unissued_docNumber[OF h1 h2 h3 h4] h1 h2 h3 h4 show ?thesis by blast
qed

section \<open>The workflow transitions\<close>

lemma issue_route_resolved:
  assumes "getDocument i s = Some d"
  shows "fst (issue_route i body now s) =
           (200, DocJson (Some (d\<lparr>status := ''issued'', issuedBy := issuedBy_b body,
                                   issuerName := issuerName_b body, issueRemarks := remarks_b body,
                                   issuedAt := Some now\<rparr>)))"
    and "getDocument i (snd (issue_route i body now s)) =
           Some (d\<lparr>status := ''issued'', issuedBy := issuedBy_b body,
                   issuerName := issuerName_b body, issueRemarks := remarks_b body,
                   issuedAt := Some now\<rparr>)"
    and "map userId_notif (notifications (snd (issue_route i body now s))) =
           map userId_notif (notifications s) @ [preparedBy d] @
             (if truthy (approvedBy d) then [jsString (approvedBy d)] else [])"
proof -
  let ?upd = "\<lambda>d. d\<lparr>status := ''issued'', issuedBy := issuedBy_b body,
                     issuerName := issuerName_b body, issueRemarks := remarks_b body,
                     issuedAt := Some now\<rparr>"
  have idp: "\<And>x. id_doc (?upd x) = id_doc x" by simp
  note u = updateDocument_result[of ?upd, OF idp]
  show "fst (issue_route i body now s) = (200, DocJson (Some (?upd d)))"
    using assms u(1)[of i s] by (simp add: issue_route_def case_prod_beta Let_def)
  show "getDocument i (snd (issue_route i body now s)) = Some (?upd d)"
    using assms u(2)[of i s]
    by (simp add: issue_route_def case_prod_beta Let_def createNotification_lookups)
  show "map userId_notif (notifications (snd (issue_route i body now s))) =
           map userId_notif (notifications s) @ [preparedBy d] @
             (if truthy (approvedBy d) then [jsString (approvedBy d)] else [])"
    using assms
    by (simp add: issue_route_def case_prod_beta Let_def createNotification_fields
                  updateDocument_other_fields)
qed

lemma issue_route_unresolved:
  "getDocument i s = None \<Longrightarrow> issue_route i body now s = ((404, Message ''Document not found''), s)"
  by (simp add: issue_route_def)


lemma approve_route_resolved:
  assumes "getDocument i s = Some d"
  shows "fst (approve_route i body now s) =
           (200, DocJson (Some (d\<lparr>status := ''approved'', approvalRemarks := approvalRemarks_b body,
                                   approvedBy := approvedBy_b body, approvedAt := Some now\<rparr>)))"
    and "getDocument i (snd (approve_route i body now s)) =
           Some (d\<lparr>status := ''approved'', approvalRemarks := approvalRemarks_b body,
                   approvedBy := approvedBy_b body, approvedAt := Some now\<rparr>)"
    and "map userId_notif (notifications (snd (approve_route i body now s))) =
           map userId_notif (notifications s) @ map id_user (getUsersByRole ''issuer'' s)
             @ [preparedBy d]"
proof -
  let ?upd = "\<lambda>d. d\<lparr>status := ''approved'', approvalRemarks := approvalRemarks_b body,
                     approvedBy := approvedBy_b body, approvedAt := Some now\<rparr>"
  have idp: "\<And>x. id_doc (?upd x) = id_doc x" by simp
  note u = updateDocument_result[of ?upd, OF idp]
  have docs: "\<And>did msg ty st us.
      getDocument i (foldl (\<lambda>st u. createNotification (id_user u) did msg ty now st) st us)
        = getDocument i st"
    by (simp add: getDocument_def notify_all_fields)
  have asg: "\<And>ds st. getDocument i (assignDocumentToDepartments i ds st) = getDocument i st"
    by (simp add: getDocument_def assign_fields)
  have roles: "\<And>ds st. getUsersByRole ''issuer'' (assignDocumentToDepartments i ds st)
                  = getUsersByRole ''issuer'' st"
    by (simp add: getUsersByRole_def assign_fields)
  have roles2: "getUsersByRole ''issuer'' (snd (updateDocument i ?upd s)) = getUsersByRole ''issuer'' s"
    by (simp add: getUsersByRole_def updateDocument_other_fields)
  show "fst (approve_route i body now s) = (200, DocJson (Some (?upd d)))"
    using assms u(1)[of i s] by (simp add: approve_route_def case_prod_beta Let_def)
  show "getDocument i (snd (approve_route i body now s)) = Some (?upd d)"
    using assms u(2)[of i s]
    by (simp add: approve_route_def case_prod_beta Let_def createNotification_lookups docs asg
             split: option.split)
  show "map userId_notif (notifications (snd (approve_route i body now s))) =
           map userId_notif (notifications s) @ map id_user (getUsersByRole ''issuer'' s)
             @ [preparedBy d]"
    using assms
    by (simp add: approve_route_def case_prod_beta Let_def createNotification_fields
                  notify_all_fields assign_fields roles roles2 updateDocument_other_fields
             split: option.split)
qed

lemma approve_route_unresolved:
  "getDocument i s = None \<Longrightarrow> approve_route i body now s = ((404, Message ''Document not found''), s)"
  by (simp add: approve_route_def)

lemma decline_route_resolved:
  assumes "getDocument i s = Some d"
  shows "fst (decline_route i remarks now s) =
           (200, DocJson (Some (d\<lparr>status := ''declined'', declineRemarks := remarks,
                                   approvedBy := None, issuedBy := None\<rparr>)))"
    and "getDocument i (snd (decline_route i remarks now s)) =
           Some (d\<lparr>status := ''declined'', declineRemarks := remarks,
                   approvedBy := None, issuedBy := None\<rparr>)"
    and "\<exists>n. notifications (snd (decline_route i remarks now s)) = notifications s @ [n]
              \<and> userId_notif n = preparedBy d \<and> documentId_notif n = i"
proof -
  let ?upd = "\<lambda>d. d\<lparr>status := ''declined'', declineRemarks := remarks,
                     approvedBy := None, issuedBy := None\<rparr>"
  have idp: "\<And>x. id_doc (?upd x) = id_doc x" by simp
  note u = updateDocument_result[of ?upd, OF idp]
  show "fst (decline_route i remarks now s) = (200, DocJson (Some (?upd d)))"
    using assms u(1)[of i s] by (simp add: decline_route_def case_prod_beta Let_def)
  show "getDocument i (snd (decline_route i remarks now s)) = Some (?upd d)"
    using assms u(2)[of i s]
    by (simp add: decline_route_def case_prod_beta Let_def createNotification_lookups)
  show "\<exists>n. notifications (snd (decline_route i remarks now s)) = notifications s @ [n]
              \<and> userId_notif n = preparedBy d \<and> documentId_notif n = i"
    using assms
    by (simp add: decline_route_def case_prod_beta Let_def createNotification_def
                  updateDocument_other_fields)
qed


lemma createDocument_fields:
  assumes "createDocument ins s = Inr (doc, s1)"
  shows "users s1 = users s" and "notifications s1 = notifications s"
    and "documents s1 = documents s @ [doc]"
    and "docNumber doc = docNumber_ins ins" and "revisionNo doc = revisionNo_ins ins"
    and "(docNumber_ins ins, revisionNo_ins ins) \<notin> set (revisionKeys s)"
proof -
  from assms have nf: "find (\<lambda>d. docNumber d = docNumber_ins ins \<and> revisionNo d = revisionNo_ins ins)
                (documents s) = None"
    by (auto simp: createDocument_def split: option.splits)
  from assms nf show "users s1 = users s" "notifications s1 = notifications s"
      "documents s1 = documents s @ [doc]"
      "docNumber doc = docNumber_ins ins" "revisionNo doc = revisionNo_ins ins"
    by (auto simp: createDocument_def Let_def)
  from nf show "(docNumber_ins ins, revisionNo_ins ins) \<notin> set (revisionKeys s)"
    by (auto simp: find_None_iff revisionKeys_def)
qed


text \<open>
  Claim C2, as the code has it. The issue route does not look at the current status. For
  every document that resolves, whatever its status (Pending, Declined and Issued
  included), issue answers 200 and sets \<^verbatim>\<open>status\<close> to \<^verbatim>\<open>issued\<close> together with \<^verbatim>\<open>issuedBy\<close>,
  \<^verbatim>\<open>issuerName\<close>, \<^verbatim>\<open>issueRemarks\<close> and \<^verbatim>\<open>issuedAt\<close>, every other field as it was. It fails,
  with 404 and the store unchanged, only when the document id does not resolve.
\<close>

theorem issue_route_any_status:
  "(case getDocument i s of
      None \<Rightarrow> issue_route i body now s = ((404, Message ''Document not found''), s)
    | Some d \<Rightarrow>
        fst (issue_route i body now s) =
          (200, DocJson (Some (d\<lparr>status := ''issued'', issuedBy := issuedBy_b body,
                                  issuerName := issuerName_b body, issueRemarks := remarks_b body,
                                  issuedAt := Some now\<rparr>)))
        \<and> getDocument i (snd (issue_route i body now s)) =
            Some (d\<lparr>status := ''issued'', issuedBy := issuedBy_b body,
                    issuerName := issuerName_b body, issueRemarks := remarks_b body,
                    issuedAt := Some now\<rparr>))"
proof (cases "getDocument i s")
  case None
  then show ?thesis by (simp add: issue_route_unresolved)
next
  case (Some d)
  then show ?thesis by (simp add: issue_route_resolved(1,2))
qed

theorem issue_route_any_status_witness:
  "fst (issue_route ''d3'' exampleIssueBody 7 exampleStore) =
     (200, DocJson (Some ((exampleDoc ''d3'' ''QA-003'' 0 ''approved'' ''creator-1'' (Some ''creator-1''))
        \<lparr>status := ''issued'', issuedBy := Some ''issuer-1'', issuerName := Some ''User issuer-1'',
         issueRemarks := None, issuedAt := Some 7\<rparr>)))"
  using issue_route_any_status[where i = "''d3''" and s = exampleStore and body = exampleIssueBody and now = 7]
  by (simp add: example_documents exampleIssueBody_def)

text \<open>Issue on the pending QA-002: the answer is 200 and the document is issued.\<close>

theorem issue_pending_counterexample:
  "map_option status (getDocument ''d2'' exampleStore) = Some ''pending''
   \<and> fst (fst (issue_route ''d2'' exampleIssueBody 7 exampleStore)) = 200
   \<and> map_option status (getDocument ''d2'' (snd (issue_route ''d2'' exampleIssueBody 7 exampleStore)))
       = Some ''issued''"
  using issue_route_resolved(1,2)[OF example_documents(3), of exampleIssueBody 7]
  by (simp add: example_documents exampleDoc_def)

text \<open>
  Claim C3, as the code has it. The approve route validates neither the remarks nor
  \<^verbatim>\<open>approvedBy\<close>. For every document that resolves, whatever the remarks (empty or missing
  included) and whether or not \<^verbatim>\<open>approvedBy\<close> names a user, approve answers 200, sets
  \<^verbatim>\<open>status\<close> to \<^verbatim>\<open>approved\<close> with \<^verbatim>\<open>approvalRemarks\<close>, \<^verbatim>\<open>approvedBy\<close> and \<^verbatim>\<open>approvedAt\<close> as
  supplied, and creates one notification per issuer and one for the preparer. It fails,
  with 404 and the store unchanged, only when the document id does not resolve.
\<close>

theorem approve_route_any_remarks:
  "(case getDocument i s of
      None \<Rightarrow> approve_route i body now s = ((404, Message ''Document not found''), s)
    | Some d \<Rightarrow>
        fst (approve_route i body now s) =
          (200, DocJson (Some (d\<lparr>status := ''approved'', approvalRemarks := approvalRemarks_b body,
                                  approvedBy := approvedBy_b body, approvedAt := Some now\<rparr>)))
        \<and> getDocument i (snd (approve_route i body now s)) =
            Some (d\<lparr>status := ''approved'', approvalRemarks := approvalRemarks_b body,
                    approvedBy := approvedBy_b body, approvedAt := Some now\<rparr>)
        \<and> length (notifications (snd (approve_route i body now s))) =
            length (notifications s) + length (getUsersByRole ''issuer'' s) + 1)"
proof (cases "getDocument i s")
  case None
  then show ?thesis by (simp add: approve_route_unresolved)
next
  case (Some d)
  have "length (map userId_notif (notifications (snd (approve_route i body now s)))) =
          length (map userId_notif (notifications s) @ map id_user (getUsersByRole ''issuer'' s)
             @ [preparedBy d])"
    by (simp only: approve_route_resolved(3)[OF Some])
  then have "length (notifications (snd (approve_route i body now s))) =
            length (notifications s) + length (getUsersByRole ''issuer'' s) + 1"
    by simp
  then show ?thesis using Some by (simp add: approve_route_resolved(1,2))
qed

theorem approve_route_any_remarks_witness:
  "fst (approve_route ''d2'' emptyRemarksApproval 7 exampleStore) =
     (200, DocJson (Some ((exampleDoc ''d2'' ''QA-002'' 0 ''pending'' ''creator-1'' None)
        \<lparr>status := ''approved'', approvalRemarks := Some [], approvedBy := Some ''nobody'',
         approvedAt := Some 7\<rparr>)))
   \<and> length (notifications (snd (approve_route ''d2'' emptyRemarksApproval 7 exampleStore))) = 2"
  using approve_route_any_remarks[where i = "''d2''" and s = exampleStore and body = emptyRemarksApproval and now = 7]
  by (simp add: example_documents example_users example_notifications emptyRemarksApproval_def)

text \<open>Approve on the pending QA-002 with empty remarks and an \<^verbatim>\<open>approvedBy\<close> that names no
  user: the answer is 200, the document is approved and two notifications are created.\<close>

theorem approve_empty_remarks_counterexample:
  "approvalRemarks_b emptyRemarksApproval = Some []
   \<and> getUser ''nobody'' exampleStore = None
   \<and> map_option status (getDocument ''d2'' exampleStore) = Some ''pending''
   \<and> fst (fst (approve_route ''d2'' emptyRemarksApproval 7 exampleStore)) = 200
   \<and> map_option status (getDocument ''d2'' (snd (approve_route ''d2'' emptyRemarksApproval 7 exampleStore)))
       = Some ''approved''
   \<and> map userId_notif (notifications (snd (approve_route ''d2'' emptyRemarksApproval 7 exampleStore)))
       = [''issuer-1'', ''creator-1'']"
  using approve_route_resolved[OF example_documents(3), of emptyRemarksApproval 7]
  by (simp add: example_documents example_users example_notifications exampleDoc_def
                exampleUser_def emptyRemarksApproval_def)




text \<open>
  Claim C6. For every document on which decline is called (whatever its status, Pending
  and Approved included), the resulting document has status \<^verbatim>\<open>declined\<close> with \<^verbatim>\<open>approvedBy\<close>
  and \<^verbatim>\<open>issuedBy\<close> cleared, and exactly one notification is created, addressed to the
  document's preparer.
\<close>

theorem decline_clears_and_notifies_preparer:
  assumes "getDocument i s = Some d"
  shows "fst (decline_route i remarks now s) =
           (200, DocJson (Some (d\<lparr>status := ''declined'', declineRemarks := remarks,
                                   approvedBy := None, issuedBy := None\<rparr>)))
       \<and> (\<exists>d'. getDocument i (snd (decline_route i remarks now s)) = Some d'
                \<and> status d' = ''declined'' \<and> approvedBy d' = None \<and> issuedBy d' = None)
       \<and> (\<exists>n. notifications (snd (decline_route i remarks now s)) = notifications s @ [n]
                \<and> userId_notif n = preparedBy d \<and> documentId_notif n = i)"
  using decline_route_resolved[OF assms, of remarks now] by simp

theorem decline_clears_and_notifies_preparer_witness:
  "getDocument ''d3'' exampleStore =
     Some (exampleDoc ''d3'' ''QA-003'' 0 ''approved'' ''creator-1'' (Some ''creator-1''))
   \<and> (\<exists>d'. getDocument ''d3'' (snd (decline_route ''d3'' (Some ''wrong template'') 7 exampleStore)) = Some d'
           \<and> status d' = ''declined'' \<and> approvedBy d' = None \<and> issuedBy d' = None)
   \<and> (\<exists>n. notifications (snd (decline_route ''d3'' (Some ''wrong template'') 7 exampleStore))
              = notifications exampleStore @ [n]
           \<and> userId_notif n = ''creator-1'' \<and> documentId_notif n = ''d3'')"
  using decline_clears_and_notifies_preparer[OF example_documents(4), of "Some ''wrong template''" 7]
  by (simp add: example_documents exampleDoc_def)

section \<open>The version access policy\<close>

lemma latestVersion_nonempty: "xs \<noteq> [] \<Longrightarrow> \<exists>l. latestVersion xs = Some l"
  by (cases xs) (simp_all add: latestVersion_def)

lemma pdf_route_non_master:
  assumes "truthy (Some uid)" and "getUser uid s = Some usr" and "\<not> masterCopyAccess usr"
    and "getDocument i s = Some d"
    and "filter (\<lambda>x. docNumber x = docNumber d) (getDocumentsByStatus ''issued'' s) \<noteq> []"
  shows "pdf_route e i (Some uid) (VersionInt n) now s =
           ((403, Message ''Access denied. Only master copy users can access specific versions.''), s)"
    and "latestVersion (filter (\<lambda>x. docNumber x = docNumber d) (getDocumentsByStatus ''issued'' s))
           = Some latest \<Longrightarrow>
         pdf_route e i (Some uid) VersionOmitted now s =
           (if id_doc d \<noteq> id_doc latest
            then ((403, Message ''Access denied. Only the latest version can be accessed. Please contact administrator for previous versions.''), s)
            else pdf_distribute e usr uid d now s)"
  using assms by (simp_all add: pdf_route_def jsString_def Let_def)

lemma print_route_non_master:
  assumes "truthy (Some uid)" and "getUser uid s = Some usr" and "\<not> masterCopyAccess usr"
    and "getDocument i s = Some d"
    and "filter (\<lambda>x. docNumber x = docNumber d) (getDocumentsByStatus ''issued'' s) \<noteq> []"
  shows "print_route e i (Some uid) (VersionInt n) now s =
           ((403, Message ''Access denied. Only master copy users can print specific versions.''), s)"
    and "latestVersion (filter (\<lambda>x. docNumber x = docNumber d) (getDocumentsByStatus ''issued'' s))
           = Some latest \<Longrightarrow>
         print_route e i (Some uid) VersionOmitted now s =
           (if id_doc d \<noteq> id_doc latest
            then ((403, Message ''Access denied. Only the latest version can be printed. Please contact administrator for previous versions.''), s)
            else print_distribute e usr uid d now s)"
  using assms by (simp_all add: print_route_def jsString_def Let_def)

text \<open>
  Claim C4, as the code has it. For a user without master copy access and a document
  whose docNumber has a non-empty issued revision set, on the pdf and the print route:
  every explicit numeric \<^verbatim>\<open>version\<close>, the latest one included, is rejected with 403; with
  \<^verbatim>\<open>version\<close> omitted the request is rejected with 403 when the addressed document's id is
  not the id of the latest issued revision, and otherwise goes on to distribute the
  addressed document.
\<close>

theorem non_master_version_policy:
  assumes "truthy (Some uid)" and "getUser uid s = Some usr" and "\<not> masterCopyAccess usr"
    and "getDocument i s = Some d"
    and "filter (\<lambda>x. docNumber x = docNumber d) (getDocumentsByStatus ''issued'' s) \<noteq> []"
  shows "pdf_route e i (Some uid) (VersionInt n) now s =
           ((403, Message ''Access denied. Only master copy users can access specific versions.''), s)
       \<and> print_route e i (Some uid) (VersionInt n) now s =
           ((403, Message ''Access denied. Only master copy users can print specific versions.''), s)
       \<and> (\<exists>latest.
            latestVersion (filter (\<lambda>x. docNumber x = docNumber d) (getDocumentsByStatus ''issued'' s))
              = Some latest
            \<and> pdf_route e i (Some uid) VersionOmitted now s =
                (if id_doc d \<noteq> id_doc latest
                 then ((403, Message ''Access denied. Only the latest version can be accessed. Please contact administrator for previous versions.''), s)
                 else pdf_distribute e usr uid d now s)
            \<and> print_route e i (Some uid) VersionOmitted now s =
                (if id_doc d \<noteq> id_doc latest
                 then ((403, Message ''Access denied. Only the latest version can be printed. Please contact administrator for previous versions.''), s)
                 else print_distribute e usr uid d now s))"
proof -
  from latestVersion_nonempty[OF assms(5)] obtain latest where
    l: "latestVersion (filter (\<lambda>x. docNumber x = docNumber d) (getDocumentsByStatus ''issued'' s))
          = Some latest" by blast
  show ?thesis
    using pdf_route_non_master(1)[OF assms, of e n now]
          print_route_non_master(1)[OF assms, of e n now]
          pdf_route_non_master(2)[OF assms l, of e now]
          print_route_non_master(2)[OF assms l, of e now] l
    by blast
qed

text \<open>QA-001 has the issued revisions 0 and 1. A user without master copy access who asks
  for \<^verbatim>\<open>version=1\<close>, the latest, is rejected; so is one who omits the version on the id of
  revision 0.\<close>

theorem non_master_explicit_latest_counterexample:
  "getUser ''recipient-1'' exampleStore = Some (exampleUser ''recipient-1'' ''recipient'' False)
   \<and> \<not> masterCopyAccess (exampleUser ''recipient-1'' ''recipient'' False)
   \<and> latestVersion (filter (\<lambda>x. docNumber x = ''QA-001'') (getDocumentsByStatus ''issued'' exampleStore))
       = Some (exampleDoc ''d1'' ''QA-001'' 1 ''issued'' ''creator-1'' (Some ''approver-1''))
   \<and> pdf_route exampleEnv ''d1'' (Some ''recipient-1'') (VersionInt 1) 7 exampleStore =
       ((403, Message ''Access denied. Only master copy users can access specific versions.''),
        exampleStore)
   \<and> pdf_route exampleEnv ''d0'' (Some ''recipient-1'') VersionOmitted 7 exampleStore =
       ((403, Message ''Access denied. Only the latest version can be accessed. Please contact administrator for previous versions.''),
        exampleStore)"
proof -
  have ne1: "filter (\<lambda>x. docNumber x = docNumber (exampleDoc ''d1'' ''QA-001'' 1 ''issued'' ''creator-1'' (Some ''approver-1'')))
           (getDocumentsByStatus ''issued'' exampleStore) \<noteq> []"
    by (simp add: example_facts example_QA001)
  have ne0: "filter (\<lambda>x. docNumber x = docNumber (exampleDoc ''d0'' ''QA-001'' 0 ''issued'' ''creator-1'' (Some ''approver-1'')))
           (getDocumentsByStatus ''issued'' exampleStore) \<noteq> []"
    by (simp add: example_facts example_QA001)
  have l0: "latestVersion (filter (\<lambda>x. docNumber x = docNumber (exampleDoc ''d0'' ''QA-001'' 0 ''issued'' ''creator-1'' (Some ''approver-1'')))
           (getDocumentsByStatus ''issued'' exampleStore))
        = Some (exampleDoc ''d1'' ''QA-001'' 1 ''issued'' ''creator-1'' (Some ''approver-1''))"
    by (simp add: example_facts example_QA001)
  show ?thesis
    using pdf_route_non_master(1)[OF example_facts(1) example_users(1) example_facts(2)
            example_documents(2) ne1, of exampleEnv 1 7]
          pdf_route_non_master(2)[OF example_facts(1) example_users(1) example_facts(2)
            example_documents(1) ne0 l0, of exampleEnv 7]
    by (simp add: example_users example_facts example_QA001)
qed

theorem non_master_version_policy_witness:
  "truthy (Some ''recipient-1'')
   \<and> getUser ''recipient-1'' exampleStore = Some (exampleUser ''recipient-1'' ''recipient'' False)
   \<and> \<not> masterCopyAccess (exampleUser ''recipient-1'' ''recipient'' False)
   \<and> getDocument ''d1'' exampleStore =
       Some (exampleDoc ''d1'' ''QA-001'' 1 ''issued'' ''creator-1'' (Some ''approver-1''))
   \<and> filter (\<lambda>x. docNumber x = ''QA-001'') (getDocumentsByStatus ''issued'' exampleStore) \<noteq> []
   \<and> print_route exampleEnv ''d1'' (Some ''recipient-1'') (VersionInt 0) 7 exampleStore =
       ((403, Message ''Access denied. Only master copy users can print specific versions.''),
        exampleStore)
   \<and> pdf_route exampleEnv ''d1'' (Some ''recipient-1'') VersionOmitted 7 exampleStore =
       pdf_distribute exampleEnv (exampleUser ''recipient-1'' ''recipient'' False) ''recipient-1''
         (exampleDoc ''d1'' ''QA-001'' 1 ''issued'' ''creator-1'' (Some ''approver-1'')) 7 exampleStore"
proof -
  have ne1: "filter (\<lambda>x. docNumber x = docNumber (exampleDoc ''d1'' ''QA-001'' 1 ''issued'' ''creator-1'' (Some ''approver-1'')))
           (getDocumentsByStatus ''issued'' exampleStore) \<noteq> []"
    by (simp add: example_facts example_QA001)
  show ?thesis
    using non_master_version_policy[OF example_facts(1) example_users(1) example_facts(2)
            example_documents(2) ne1, of exampleEnv 0 7]
    by (simp add: example_users example_facts example_QA001 example_documents)
qed

section \<open>Issuance and rendering\<close>

text \<open>The distribution step on its two branches, and the ways a route reaches it.\<close>

lemma latestVersion_None_iff: "latestVersion xs = None \<longleftrightarrow> xs = []"
  by (cases xs) (simp_all add: latestVersion_def)

lemma pdf_distribute_issued:
  assumes "status d = ''issued''" and "truthy (wordFilePath d)"
  shows "pdf_distribute e usr uid d now s =
           (case convertWordToPDF e (jsString (wordFilePath d)) d
                   \<lparr>userId_info = id_user usr, userFullName = fullName usr,
                    controlCopyNumber =
                      copyNumber (fst (createControlCopy (id_doc d) uid ''view'' now s)),
                    date_info = now\<rparr> of
              Inl err \<Rightarrow> internalError err
            | Inr pdfPath \<Rightarrow>
                (case readFile e pdfPath of
                   Inl err \<Rightarrow> internalError err
                 | Inr pdfBuffer \<Rightarrow> (200, PdfBuffer pdfBuffer)),
            snd (createControlCopy (id_doc d) uid ''view'' now s))"
  using assms by (simp add: pdf_distribute_def case_prod_beta Let_def split: sum.split)

lemma pdf_distribute_refused:
  assumes "\<not> (status d = ''issued'' \<and> truthy (wordFilePath d))"
  shows "snd (pdf_distribute e usr uid d now s) = s"
    and "fst (fst (pdf_distribute e usr uid d now s)) \<in> {400, 403, 404}"
  using assms by (auto simp: pdf_distribute_def)

lemma print_distribute_issued:
  assumes "status d = ''issued''" and "truthy (wordFilePath d)"
  shows "print_distribute e usr uid d now s =
           (case convertWordToPDF e (jsString (wordFilePath d)) d
                   \<lparr>userId_info = id_user usr, userFullName = fullName usr,
                    controlCopyNumber =
                      copyNumber (fst (createControlCopy (id_doc d) uid ''print'' now s)),
                    date_info = now\<rparr> of
              Inl err \<Rightarrow> internalError err
            | Inr pdfPath \<Rightarrow>
                (case readFile e pdfPath of
                   Inl err \<Rightarrow> internalError err
                 | Inr pdfBuffer \<Rightarrow> (200, PdfBuffer pdfBuffer)),
            snd (createPrintLog (id_doc d) uid
                   (id_cc (fst (createControlCopy (id_doc d) uid ''print'' now s))) ''PDF'' now
                   (snd (createControlCopy (id_doc d) uid ''print'' now s))))"
  using assms by (simp add: print_distribute_def case_prod_beta Let_def split: sum.split)

lemma print_distribute_refused:
  assumes "\<not> (status d = ''issued'' \<and> truthy (wordFilePath d))"
  shows "snd (print_distribute e usr uid d now s) = s"
    and "fst (fst (print_distribute e usr uid d now s)) \<in> {400, 403, 404}"
  using assms by (auto simp: print_distribute_def)

lemma createPrintLog_store:
  "printLogs (snd (createPrintLog did uid ccid med now s)) =
     printLogs s @ [fst (createPrintLog did uid ccid med now s)]"
  "controlCopies (snd (createPrintLog did uid ccid med now s)) = controlCopies s"
  "controlCopyId (fst (createPrintLog did uid ccid med now s)) = ccid"
  by (simp_all add: createPrintLog_def Let_def)

lemma createControlCopy_appends:
  "controlCopies (snd (createControlCopy did uid action now s)) =
     controlCopies s @ [fst (createControlCopy did uid action now s)]"
  "printLogs (snd (createControlCopy did uid action now s)) = printLogs s"
  by (simp_all add: createControlCopy_def Let_def)

lemma pdf_route_rejected_or_distribute:
  "(snd (pdf_route e i u v now s) = s \<and> fst (fst (pdf_route e i u v now s)) \<in> {400, 403, 404})
   \<or> (\<exists>usr d. getUser (jsString u) s = Some usr
          \<and> pdf_route e i u v now s = pdf_distribute e usr (jsString u) d now s)"
  by (auto simp: pdf_route_def Let_def latestVersion_None_iff
           split: option.split versionParam.split)

lemma print_route_rejected_or_distribute:
  "(snd (print_route e i u v now s) = s \<and> fst (fst (print_route e i u v now s)) \<in> {400, 403, 404})
   \<or> (\<exists>usr d. getUser (jsString u) s = Some usr
          \<and> print_route e i u v now s = print_distribute e usr (jsString u) d now s)"
  by (auto simp: print_route_def Let_def latestVersion_None_iff
           split: option.split versionParam.split)

lemma routes_version_omitted:
  assumes "truthy (Some uid)" and "getUser uid s = Some usr" and "getDocument i s = Some d"
    and "filter (\<lambda>x. docNumber x = docNumber d) (getDocumentsByStatus ''issued'' s) \<noteq> []"
    and "masterCopyAccess usr
         \<or> (\<exists>latest. latestVersion (filter (\<lambda>x. docNumber x = docNumber d)
                                         (getDocumentsByStatus ''issued'' s)) = Some latest
                     \<and> id_doc d = id_doc latest)"
  shows "pdf_route e i (Some uid) VersionOmitted now s = pdf_distribute e usr uid d now s"
    and "print_route e i (Some uid) VersionOmitted now s = print_distribute e usr uid d now s"
  using assms by (auto simp: pdf_route_def print_route_def jsString_def Let_def)

lemma routes_version_explicit:
  assumes "truthy (Some uid)" and "getUser uid s = Some usr" and "masterCopyAccess usr"
    and "getDocument i s = Some d0"
    and "find (\<lambda>x. revisionNo x = n)
           (filter (\<lambda>x. docNumber x = docNumber d0) (getDocumentsByStatus ''issued'' s))
         = Some requestedDoc"
    and "getDocument (id_doc requestedDoc) s = Some d"
  shows "pdf_route e i (Some uid) (VersionInt n) now s = pdf_distribute e usr uid d now s"
    and "print_route e i (Some uid) (VersionInt n) now s = print_distribute e usr uid d now s"
proof -
  have ne: "filter (\<lambda>x. docNumber x = docNumber d0) (getDocumentsByStatus ''issued'' s) \<noteq> []"
    using assms(5) by auto
  show "pdf_route e i (Some uid) (VersionInt n) now s = pdf_distribute e usr uid d now s"
    using assms ne by (simp add: pdf_route_def jsString_def Let_def)
  show "print_route e i (Some uid) (VersionInt n) now s = print_distribute e usr uid d now s"
    using assms ne by (simp add: print_route_def jsString_def Let_def)
qed


lemma pdf_route_commits:
  "((snd (pdf_route e i u v now s) = s
      \<and> fst (fst (pdf_route e i u v now s)) \<in> {400, 403, 404})
    \<or> (\<exists>usr d.
          getUser (jsString u) s = Some usr \<and> status d = ''issued'' \<and> truthy (wordFilePath d)
          \<and> snd (pdf_route e i u v now s) = snd (createControlCopy (id_doc d) (jsString u) ''view'' now s)
          \<and> controlCopies (snd (pdf_route e i u v now s)) =
                controlCopies s @ [fst (createControlCopy (id_doc d) (jsString u) ''view'' now s)]
          \<and> printLogs (snd (pdf_route e i u v now s)) = printLogs s
          \<and> fst (pdf_route e i u v now s) =
               (case convertWordToPDF e (jsString (wordFilePath d)) d
                       \<lparr>userId_info = id_user usr, userFullName = fullName usr,
                        controlCopyNumber =
                          copyNumber (fst (createControlCopy (id_doc d) (jsString u) ''view'' now s)),
                        date_info = now\<rparr> of
                  Inl err \<Rightarrow> internalError err
                | Inr pdfPath \<Rightarrow>
                    (case readFile e pdfPath of
                       Inl err \<Rightarrow> internalError err
                     | Inr pdfBuffer \<Rightarrow> (200, PdfBuffer pdfBuffer)))))"
proof -
  from pdf_route_rejected_or_distribute[of e i u v now s] show ?thesis
  proof
    assume "snd (pdf_route e i u v now s) = s
            \<and> fst (fst (pdf_route e i u v now s)) \<in> {400, 403, 404}"
    then show ?thesis by (rule disjI1)
  next
    assume "\<exists>usr d. getUser (jsString u) s = Some usr
          \<and> pdf_route e i u v now s = pdf_distribute e usr (jsString u) d now s"
    then obtain usr d where g: "getUser (jsString u) s = Some usr"
      and r: "pdf_route e i u v now s = pdf_distribute e usr (jsString u) d now s" by blast
    show ?thesis
    proof (cases "status d = ''issued'' \<and> truthy (wordFilePath d)")
      case False
      from pdf_distribute_refused[OF False, of e usr "jsString u" now s] show ?thesis
        unfolding r by (intro disjI1) simp
    next
      case True
      then have st: "status d = ''issued''" and fl: "truthy (wordFilePath d)" by simp_all
      note eq = pdf_distribute_issued[OF st fl, of e usr "jsString u" now s]
      show ?thesis
        apply (rule disjI2)
        apply (rule exI[of _ usr], rule exI[of _ d])
        unfolding r eq
        using g st fl by (simp add: createControlCopy_appends)
    qed
  qed
qed

lemma print_route_commits:
  "((snd (print_route e i u v now s) = s
      \<and> fst (fst (print_route e i u v now s)) \<in> {400, 403, 404})
    \<or> (\<exists>usr d.
          getUser (jsString u) s = Some usr \<and> status d = ''issued'' \<and> truthy (wordFilePath d)
          \<and> snd (print_route e i u v now s) =
                snd (createPrintLog (id_doc d) (jsString u)
                     (id_cc (fst (createControlCopy (id_doc d) (jsString u) ''print'' now s))) ''PDF'' now
                     (snd (createControlCopy (id_doc d) (jsString u) ''print'' now s)))
          \<and> controlCopies (snd (print_route e i u v now s)) =
                controlCopies s @ [fst (createControlCopy (id_doc d) (jsString u) ''print'' now s)]
          \<and> (\<exists>pl. printLogs (snd (print_route e i u v now s)) = printLogs s @ [pl]
                   \<and> controlCopyId pl =
                       id_cc (fst (createControlCopy (id_doc d) (jsString u) ''print'' now s)))
          \<and> fst (print_route e i u v now s) =
               (case convertWordToPDF e (jsString (wordFilePath d)) d
                       \<lparr>userId_info = id_user usr, userFullName = fullName usr,
                        controlCopyNumber =
                          copyNumber (fst (createControlCopy (id_doc d) (jsString u) ''print'' now s)),
                        date_info = now\<rparr> of
                  Inl err \<Rightarrow> internalError err
                | Inr pdfPath \<Rightarrow>
                    (case readFile e pdfPath of
                       Inl err \<Rightarrow> internalError err
                     | Inr pdfBuffer \<Rightarrow> (200, PdfBuffer pdfBuffer)))))"
proof -
  from print_route_rejected_or_distribute[of e i u v now s] show ?thesis
  proof
    assume "snd (print_route e i u v now s) = s
            \<and> fst (fst (print_route e i u v now s)) \<in> {400, 403, 404}"
    then show ?thesis by (rule disjI1)
  next
    assume "\<exists>usr d. getUser (jsString u) s = Some usr
          \<and> print_route e i u v now s = print_distribute e usr (jsString u) d now s"
    then obtain usr d where g: "getUser (jsString u) s = Some usr"
      and r: "print_route e i u v now s = print_distribute e usr (jsString u) d now s" by blast
    show ?thesis
    proof (cases "status d = ''issued'' \<and> truthy (wordFilePath d)")
      case False
      from print_distribute_refused[OF False, of e usr "jsString u" now s] show ?thesis
        unfolding r by (intro disjI1) simp
    next
      case True
      then have st: "status d = ''issued''" and fl: "truthy (wordFilePath d)" by simp_all
      note eq = print_distribute_issued[OF st fl, of e usr "jsString u" now s]
      show ?thesis
        apply (rule disjI2)
        apply (rule exI[of _ usr], rule exI[of _ d])
        unfolding r eq
        using g st fl by (simp add: createControlCopy_appends createPrintLog_store)
    qed
  qed
qed

text \<open>
  Claim C7. Every view or print request ends in one of two ways. Either the route rejects
  it with 400, 403 or 404 and leaves the store as it was. Or it has written the
  ControlCopy row (and, for print, the PrintLog row that refers to it) for an issued
  document with a Word file, and only then calls the rendering, with the copy number of
  that row; the store the route leaves is then the store right after those storage
  calls, whatever the rendering and the read of its result do: an error of either is
  answered with 500 and nothing is rolled back, a success is answered with 200. The
  second way is the one taken with the version omitted (by a master copy user, or when
  the addressed id is the latest revision's) and, for a master copy user, with an
  explicit version that is found, when the resolved document is issued and has a Word
  file.
\<close>

theorem control_copy_committed_before_rendering:
  "((snd (pdf_route e i u v now s) = s
      \<and> fst (fst (pdf_route e i u v now s)) \<in> {400, 403, 404})
    \<or> (\<exists>usr d.
          getUser (jsString u) s = Some usr \<and> status d = ''issued'' \<and> truthy (wordFilePath d)
          \<and> snd (pdf_route e i u v now s) = snd (createControlCopy (id_doc d) (jsString u) ''view'' now s)
          \<and> controlCopies (snd (pdf_route e i u v now s)) =
                controlCopies s @ [fst (createControlCopy (id_doc d) (jsString u) ''view'' now s)]
          \<and> printLogs (snd (pdf_route e i u v now s)) = printLogs s
          \<and> fst (pdf_route e i u v now s) =
               (case convertWordToPDF e (jsString (wordFilePath d)) d
                       \<lparr>userId_info = id_user usr, userFullName = fullName usr,
                        controlCopyNumber =
                          copyNumber (fst (createControlCopy (id_doc d) (jsString u) ''view'' now s)),
                        date_info = now\<rparr> of
                  Inl err \<Rightarrow> internalError err
                | Inr pdfPath \<Rightarrow>
                    (case readFile e pdfPath of
                       Inl err \<Rightarrow> internalError err
                     | Inr pdfBuffer \<Rightarrow> (200, PdfBuffer pdfBuffer)))))
   \<and> ((snd (print_route e i u v now s) = s
      \<and> fst (fst (print_route e i u v now s)) \<in> {400, 403, 404})
    \<or> (\<exists>usr d.
          getUser (jsString u) s = Some usr \<and> status d = ''issued'' \<and> truthy (wordFilePath d)
          \<and> snd (print_route e i u v now s) =
                snd (createPrintLog (id_doc d) (jsString u)
                     (id_cc (fst (createControlCopy (id_doc d) (jsString u) ''print'' now s))) ''PDF'' now
                     (snd (createControlCopy (id_doc d) (jsString u) ''print'' now s)))
          \<and> controlCopies (snd (print_route e i u v now s)) =
                controlCopies s @ [fst (createControlCopy (id_doc d) (jsString u) ''print'' now s)]
          \<and> (\<exists>pl. printLogs (snd (print_route e i u v now s)) = printLogs s @ [pl]
                   \<and> controlCopyId pl =
                       id_cc (fst (createControlCopy (id_doc d) (jsString u) ''print'' now s)))
          \<and> fst (print_route e i u v now s) =
               (case convertWordToPDF e (jsString (wordFilePath d)) d
                       \<lparr>userId_info = id_user usr, userFullName = fullName usr,
                        controlCopyNumber =
                          copyNumber (fst (createControlCopy (id_doc d) (jsString u) ''print'' now s)),
                        date_info = now\<rparr> of
                  Inl err \<Rightarrow> internalError err
                | Inr pdfPath \<Rightarrow>
                    (case readFile e pdfPath of
                       Inl err \<Rightarrow> internalError err
                     | Inr pdfBuffer \<Rightarrow> (200, PdfBuffer pdfBuffer)))))
   \<and> (truthy (Some uid) \<and> getUser uid s = Some usr \<and> getDocument i s = Some d
      \<and> (filter (\<lambda>x. docNumber x = docNumber d) (getDocumentsByStatus ''issued'' s)) \<noteq> []
      \<and> (masterCopyAccess usr
           \<or> (\<exists>latest. latestVersion (filter (\<lambda>x. docNumber x = docNumber d) (getDocumentsByStatus ''issued'' s)) = Some latest
                       \<and> id_doc d = id_doc latest))
      \<and> status d = ''issued'' \<and> truthy (wordFilePath d)
     \<longrightarrow>
       pdf_route e i (Some uid) VersionOmitted now s =
         ((case convertWordToPDF e (jsString (wordFilePath d)) d
                       \<lparr>userId_info = id_user usr, userFullName = fullName usr,
                        controlCopyNumber =
                          copyNumber (fst (createControlCopy (id_doc d) uid ''view'' now s)),
                        date_info = now\<rparr> of
                  Inl err \<Rightarrow> internalError err
                | Inr pdfPath \<Rightarrow>
                    (case readFile e pdfPath of
                       Inl err \<Rightarrow> internalError err
                     | Inr pdfBuffer \<Rightarrow> (200, PdfBuffer pdfBuffer))),
          snd (createControlCopy (id_doc d) uid ''view'' now s))
       \<and> print_route e i (Some uid) VersionOmitted now s =
         ((case convertWordToPDF e (jsString (wordFilePath d)) d
                       \<lparr>userId_info = id_user usr, userFullName = fullName usr,
                        controlCopyNumber =
                          copyNumber (fst (createControlCopy (id_doc d) uid ''print'' now s)),
                        date_info = now\<rparr> of
                  Inl err \<Rightarrow> internalError err
                | Inr pdfPath \<Rightarrow>
                    (case readFile e pdfPath of
                       Inl err \<Rightarrow> internalError err
                     | Inr pdfBuffer \<Rightarrow> (200, PdfBuffer pdfBuffer))),
          snd (createPrintLog (id_doc d) uid
                     (id_cc (fst (createControlCopy (id_doc d) uid ''print'' now s))) ''PDF'' now
                     (snd (createControlCopy (id_doc d) uid ''print'' now s)))))
   \<and> (truthy (Some uid) \<and> getUser uid s = Some usr \<and> masterCopyAccess usr
      \<and> getDocument i s = Some d0
      \<and> find (\<lambda>x. revisionNo x = n) (filter (\<lambda>x. docNumber x = docNumber d0) (getDocumentsByStatus ''issued'' s)) = Some requestedDoc
      \<and> getDocument (id_doc requestedDoc) s = Some dv
      \<and> status dv = ''issued'' \<and> truthy (wordFilePath dv)
     \<longrightarrow>
       pdf_route e i (Some uid) (VersionInt n) now s =
         ((case convertWordToPDF e (jsString (wordFilePath dv)) dv
                       \<lparr>userId_info = id_user usr, userFullName = fullName usr,
                        controlCopyNumber =
                          copyNumber (fst (createControlCopy (id_doc dv) uid ''view'' now s)),
                        date_info = now\<rparr> of
                  Inl err \<Rightarrow> internalError err
                | Inr pdfPath \<Rightarrow>
                    (case readFile e pdfPath of
                       Inl err \<Rightarrow> internalError err
                     | Inr pdfBuffer \<Rightarrow> (200, PdfBuffer pdfBuffer))),
          snd (createControlCopy (id_doc dv) uid ''view'' now s))
       \<and> print_route e i (Some uid) (VersionInt n) now s =
         ((case convertWordToPDF e (jsString (wordFilePath dv)) dv
                       \<lparr>userId_info = id_user usr, userFullName = fullName usr,
                        controlCopyNumber =
                          copyNumber (fst (createControlCopy (id_doc dv) uid ''print'' now s)),
                        date_info = now\<rparr> of
                  Inl err \<Rightarrow> internalError err
                | Inr pdfPath \<Rightarrow>
                    (case readFile e pdfPath of
                       Inl err \<Rightarrow> internalError err
                     | Inr pdfBuffer \<Rightarrow> (200, PdfBuffer pdfBuffer))),
          snd (createPrintLog (id_doc dv) uid
                     (id_cc (fst (createControlCopy (id_doc dv) uid ''print'' now s))) ''PDF'' now
                     (snd (createControlCopy (id_doc dv) uid ''print'' now s)))))"
proof (intro conjI impI)
  show "((snd (pdf_route e i u v now s) = s
      \<and> fst (fst (pdf_route e i u v now s)) \<in> {400, 403, 404})
    \<or> (\<exists>usr d.
          getUser (jsString u) s = Some usr \<and> status d = ''issued'' \<and> truthy (wordFilePath d)
          \<and> snd (pdf_route e i u v now s) = snd (createControlCopy (id_doc d) (jsString u) ''view'' now s)
          \<and> controlCopies (snd (pdf_route e i u v now s)) =
                controlCopies s @ [fst (createControlCopy (id_doc d) (jsString u) ''view'' now s)]
          \<and> printLogs (snd (pdf_route e i u v now s)) = printLogs s
          \<and> fst (pdf_route e i u v now s) =
               (case convertWordToPDF e (jsString (wordFilePath d)) d
                       \<lparr>userId_info = id_user usr, userFullName = fullName usr,
                        controlCopyNumber =
                          copyNumber (fst (createControlCopy (id_doc d) (jsString u) ''view'' now s)),
                        date_info = now\<rparr> of
                  Inl err \<Rightarrow> internalError err
                | Inr pdfPath \<Rightarrow>
                    (case readFile e pdfPath of
                       Inl err \<Rightarrow> internalError err
                     | Inr pdfBuffer \<Rightarrow> (200, PdfBuffer pdfBuffer)))))"
    by (rule pdf_route_commits)
  show "((snd (print_route e i u v now s) = s
      \<and> fst (fst (print_route e i u v now s)) \<in> {400, 403, 404})
    \<or> (\<exists>usr d.
          getUser (jsString u) s = Some usr \<and> status d = ''issued'' \<and> truthy (wordFilePath d)
          \<and> snd (print_route e i u v now s) =
                snd (createPrintLog (id_doc d) (jsString u)
                     (id_cc (fst (createControlCopy (id_doc d) (jsString u) ''print'' now s))) ''PDF'' now
                     (snd (createControlCopy (id_doc d) (jsString u) ''print'' now s)))
          \<and> controlCopies (snd (print_route e i u v now s)) =
                controlCopies s @ [fst (createControlCopy (id_doc d) (jsString u) ''print'' now s)]
          \<and> (\<exists>pl. printLogs (snd (print_route e i u v now s)) = printLogs s @ [pl]
                   \<and> controlCopyId pl =
                       id_cc (fst (createControlCopy (id_doc d) (jsString u) ''print'' now s)))
          \<and> fst (print_route e i u v now s) =
               (case convertWordToPDF e (jsString (wordFilePath d)) d
                       \<lparr>userId_info = id_user usr, userFullName = fullName usr,
                        controlCopyNumber =
                          copyNumber (fst (createControlCopy (id_doc d) (jsString u) ''print'' now s)),
                        date_info = now\<rparr> of
                  Inl err \<Rightarrow> internalError err
                | Inr pdfPath \<Rightarrow>
                    (case readFile e pdfPath of
                       Inl err \<Rightarrow> internalError err
                     | Inr pdfBuffer \<Rightarrow> (200, PdfBuffer pdfBuffer)))))"
    by (rule print_route_commits)
next
  assume h: "truthy (Some uid) \<and> getUser uid s = Some usr \<and> getDocument i s = Some d
      \<and> (filter (\<lambda>x. docNumber x = docNumber d) (getDocumentsByStatus ''issued'' s)) \<noteq> []
      \<and> (masterCopyAccess usr
           \<or> (\<exists>latest. latestVersion (filter (\<lambda>x. docNumber x = docNumber d) (getDocumentsByStatus ''issued'' s)) = Some latest
                       \<and> id_doc d = id_doc latest))
      \<and> status d = ''issued'' \<and> truthy (wordFilePath d)"
  then have r: "pdf_route e i (Some uid) VersionOmitted now s = pdf_distribute e usr uid d now s"
      "print_route e i (Some uid) VersionOmitted now s = print_distribute e usr uid d now s"
    by (simp_all add: routes_version_omitted)
  from h have st: "status d = ''issued''" and fl: "truthy (wordFilePath d)" by simp_all
  show "pdf_route e i (Some uid) VersionOmitted now s =
         ((case convertWordToPDF e (jsString (wordFilePath d)) d
                       \<lparr>userId_info = id_user usr, userFullName = fullName usr,
                        controlCopyNumber =
                          copyNumber (fst (createControlCopy (id_doc d) uid ''view'' now s)),
                        date_info = now\<rparr> of
                  Inl err \<Rightarrow> internalError err
                | Inr pdfPath \<Rightarrow>
                    (case readFile e pdfPath of
                       Inl err \<Rightarrow> internalError err
                     | Inr pdfBuffer \<Rightarrow> (200, PdfBuffer pdfBuffer))),
          snd (createControlCopy (id_doc d) uid ''view'' now s))"
    unfolding r by (rule pdf_distribute_issued[OF st fl])
  show "print_route e i (Some uid) VersionOmitted now s =
         ((case convertWordToPDF e (jsString (wordFilePath d)) d
                       \<lparr>userId_info = id_user usr, userFullName = fullName usr,
                        controlCopyNumber =
                          copyNumber (fst (createControlCopy (id_doc d) uid ''print'' now s)),
                        date_info = now\<rparr> of
                  Inl err \<Rightarrow> internalError err
                | Inr pdfPath \<Rightarrow>
                    (case readFile e pdfPath of
                       Inl err \<Rightarrow> internalError err
                     | Inr pdfBuffer \<Rightarrow> (200, PdfBuffer pdfBuffer))),
          snd (createPrintLog (id_doc d) uid
                     (id_cc (fst (createControlCopy (id_doc d) uid ''print'' now s))) ''PDF'' now
                     (snd (createControlCopy (id_doc d) uid ''print'' now s))))"
    unfolding r by (rule print_distribute_issued[OF st fl])
next
  assume h: "truthy (Some uid) \<and> getUser uid s = Some usr \<and> masterCopyAccess usr
      \<and> getDocument i s = Some d0
      \<and> find (\<lambda>x. revisionNo x = n) (filter (\<lambda>x. docNumber x = docNumber d0) (getDocumentsByStatus ''issued'' s)) = Some requestedDoc
      \<and> getDocument (id_doc requestedDoc) s = Some dv
      \<and> status dv = ''issued'' \<and> truthy (wordFilePath dv)"
  then have r: "pdf_route e i (Some uid) (VersionInt n) now s = pdf_distribute e usr uid dv now s"
      "print_route e i (Some uid) (VersionInt n) now s = print_distribute e usr uid dv now s"
  proof -
    from h have a: "truthy (Some uid)" "getUser uid s = Some usr" "masterCopyAccess usr"
      "getDocument i s = Some d0"
      "find (\<lambda>x. revisionNo x = n)
         (filter (\<lambda>x. docNumber x = docNumber d0) (getDocumentsByStatus ''issued'' s))
       = Some requestedDoc"
      "getDocument (id_doc requestedDoc) s = Some dv" by simp_all
    show "pdf_route e i (Some uid) (VersionInt n) now s = pdf_distribute e usr uid dv now s"
      by (rule routes_version_explicit(1)[OF a])
    show "print_route e i (Some uid) (VersionInt n) now s = print_distribute e usr uid dv now s"
      by (rule routes_version_explicit(2)[OF a])
  qed
  from h have st: "status dv = ''issued''" and fl: "truthy (wordFilePath dv)" by simp_all
  show "pdf_route e i (Some uid) (VersionInt n) now s =
         ((case convertWordToPDF e (jsString (wordFilePath dv)) dv
                       \<lparr>userId_info = id_user usr, userFullName = fullName usr,
                        controlCopyNumber =
                          copyNumber (fst (createControlCopy (id_doc dv) uid ''view'' now s)),
                        date_info = now\<rparr> of
                  Inl err \<Rightarrow> internalError err
                | Inr pdfPath \<Rightarrow>
                    (case readFile e pdfPath of
                       Inl err \<Rightarrow> internalError err
                     | Inr pdfBuffer \<Rightarrow> (200, PdfBuffer pdfBuffer))),
          snd (createControlCopy (id_doc dv) uid ''view'' now s))"
    unfolding r by (rule pdf_distribute_issued[OF st fl])
  show "print_route e i (Some uid) (VersionInt n) now s =
         ((case convertWordToPDF e (jsString (wordFilePath dv)) dv
                       \<lparr>userId_info = id_user usr, userFullName = fullName usr,
                        controlCopyNumber =
                          copyNumber (fst (createControlCopy (id_doc dv) uid ''print'' now s)),
                        date_info = now\<rparr> of
                  Inl err \<Rightarrow> internalError err
                | Inr pdfPath \<Rightarrow>
                    (case readFile e pdfPath of
                       Inl err \<Rightarrow> internalError err
                     | Inr pdfBuffer \<Rightarrow> (200, PdfBuffer pdfBuffer))),
          snd (createPrintLog (id_doc dv) uid
                     (id_cc (fst (createControlCopy (id_doc dv) uid ''print'' now s))) ''PDF'' now
                     (snd (createControlCopy (id_doc dv) uid ''print'' now s))))"
    unfolding r by (rule print_distribute_issued[OF st fl])
qed


theorem control_copy_committed_before_rendering_witness:
  "getUser ''recipient-1'' exampleStore = Some (exampleUser ''recipient-1'' ''recipient'' False)
   \<and> getDocument ''d1'' exampleStore =
       Some (exampleDoc ''d1'' ''QA-001'' 1 ''issued'' ''creator-1'' (Some ''approver-1''))
   \<and> latestVersion (filter (\<lambda>x. docNumber x = ''QA-001'') (getDocumentsByStatus ''issued'' exampleStore))
       = Some (exampleDoc ''d1'' ''QA-001'' 1 ''issued'' ''creator-1'' (Some ''approver-1''))
   \<and> print_route failingEnv ''d1'' (Some ''recipient-1'') VersionOmitted 7 exampleStore =
       ((500, Message ''Chromium not found in PATH''),
        exampleStore\<lparr>controlCopies :=
            [\<lparr>id_cc = ''4'', documentId_cc = ''d1'', userId_cc = ''recipient-1'',
              actionType = ''print'', copyNumber = 1, issuedAt_cc = 7\<rparr>],
          printLogs :=
            [\<lparr>id_pl = ''5'', documentId_pl = ''d1'', userId_pl = ''recipient-1'',
              controlCopyId = ''4'', medium = ''PDF'', printedAt = 7\<rparr>],
          nextId := 6\<rparr>)
   \<and> pdf_route exampleEnv ''d1'' (Some ''recipient-1'') VersionOmitted 7 exampleStore =
       ((200, PdfBuffer ''%PDF''),
        exampleStore\<lparr>controlCopies :=
            [\<lparr>id_cc = ''4'', documentId_cc = ''d1'', userId_cc = ''recipient-1'',
              actionType = ''view'', copyNumber = 1, issuedAt_cc = 7\<rparr>],
          nextId := 5\<rparr>)
   \<and> pdf_route exampleEnv ''d1'' (Some ''admin-1'') (VersionInt 0) 7 exampleStore =
       ((200, PdfBuffer ''%PDF''),
        exampleStore\<lparr>controlCopies :=
            [\<lparr>id_cc = ''4'', documentId_cc = ''d0'', userId_cc = ''admin-1'',
              actionType = ''view'', copyNumber = 1, issuedAt_cc = 7\<rparr>],
          nextId := 5\<rparr>)"
proof -
  let ?d0 = "exampleDoc ''d0'' ''QA-001'' 0 ''issued'' ''creator-1'' (Some ''approver-1'')"
  let ?d1 = "exampleDoc ''d1'' ''QA-001'' 1 ''issued'' ''creator-1'' (Some ''approver-1'')"
  let ?rcp = "exampleUser ''recipient-1'' ''recipient'' False"
  let ?adm = "exampleUser ''admin-1'' ''admin'' True"
  have n: "nextId exampleStore = 4" by (simp add: exampleStore_def)
  have dg: "digits 4 = ''4''" "digits 5 = ''5''" by (simp_all add: digits.simps)
  have ok: "convertWordToPDF exampleEnv p d info = Inr ''pdfs/out.pdf''"
           "readFile exampleEnv q = Inr ''%PDF''" for p d info q
    by (simp_all add: exampleEnv_def)
  have omitted:
    "truthy (Some ''recipient-1'') \<and> getUser ''recipient-1'' exampleStore = Some ?rcp
     \<and> getDocument ''d1'' exampleStore = Some ?d1
     \<and> filter (\<lambda>x. docNumber x = docNumber ?d1) (getDocumentsByStatus ''issued'' exampleStore) \<noteq> []
     \<and> (masterCopyAccess ?rcp
          \<or> (\<exists>latest. latestVersion (filter (\<lambda>x. docNumber x = docNumber ?d1)
                                          (getDocumentsByStatus ''issued'' exampleStore)) = Some latest
                      \<and> id_doc ?d1 = id_doc latest))
     \<and> status ?d1 = ''issued'' \<and> truthy (wordFilePath ?d1)"
    by (simp add: example_users example_documents example_facts example_QA001 truthy_def)
  have explicit:
    "truthy (Some ''admin-1'') \<and> getUser ''admin-1'' exampleStore = Some ?adm
     \<and> masterCopyAccess ?adm \<and> getDocument ''d1'' exampleStore = Some ?d1
     \<and> find (\<lambda>x. revisionNo x = 0)
          (filter (\<lambda>x. docNumber x = docNumber ?d1) (getDocumentsByStatus ''issued'' exampleStore))
        = Some ?d0
     \<and> getDocument (id_doc ?d0) exampleStore = Some ?d0
     \<and> status ?d0 = ''issued'' \<and> truthy (wordFilePath ?d0)"
    by (simp add: example_users example_documents example_facts example_QA001 truthy_def
                  exampleUser_def)
  note failing = control_copy_committed_before_rendering
      [where e = failingEnv and i = "''d1''" and s = exampleStore and now = 7
         and uid = "''recipient-1''" and usr = ?rcp and d = ?d1,
       THEN conjunct2, THEN conjunct2, THEN conjunct1, THEN mp, OF omitted, THEN conjunct2]
  note served = control_copy_committed_before_rendering
      [where e = exampleEnv and i = "''d1''" and s = exampleStore and now = 7
         and uid = "''recipient-1''" and usr = ?rcp and d = ?d1,
       THEN conjunct2, THEN conjunct2, THEN conjunct1, THEN mp, OF omitted, THEN conjunct1]
  note master = control_copy_committed_before_rendering
      [where e = exampleEnv and i = "''d1''" and s = exampleStore and now = 7
         and uid = "''admin-1''" and usr = ?adm and d0 = ?d1 and n = 0
         and requestedDoc = ?d0 and dv = ?d0,
       THEN conjunct2, THEN conjunct2, THEN conjunct2, THEN mp, OF explicit, THEN conjunct1]
  have 1: "print_route failingEnv ''d1'' (Some ''recipient-1'') VersionOmitted 7 exampleStore =
       ((500, Message ''Chromium not found in PATH''),
        exampleStore\<lparr>controlCopies :=
            [\<lparr>id_cc = ''4'', documentId_cc = ''d1'', userId_cc = ''recipient-1'',
              actionType = ''print'', copyNumber = 1, issuedAt_cc = 7\<rparr>],
          printLogs :=
            [\<lparr>id_pl = ''5'', documentId_pl = ''d1'', userId_pl = ''recipient-1'',
              controlCopyId = ''4'', medium = ''PDF'', printedAt = 7\<rparr>],
          nextId := 6\<rparr>)"
    unfolding failing
    by (simp add: failingEnv_render internalError_def createControlCopy_def createPrintLog_def
                  Let_def freshId_def example_ledger example_facts n dg)
  have 2: "pdf_route exampleEnv ''d1'' (Some ''recipient-1'') VersionOmitted 7 exampleStore =
       ((200, PdfBuffer ''%PDF''),
        exampleStore\<lparr>controlCopies :=
            [\<lparr>id_cc = ''4'', documentId_cc = ''d1'', userId_cc = ''recipient-1'',
              actionType = ''view'', copyNumber = 1, issuedAt_cc = 7\<rparr>],
          nextId := 5\<rparr>)"
    unfolding served
    by (simp add: ok createControlCopy_def Let_def freshId_def example_ledger example_facts n dg)
  have 3: "pdf_route exampleEnv ''d1'' (Some ''admin-1'') (VersionInt 0) 7 exampleStore =
       ((200, PdfBuffer ''%PDF''),
        exampleStore\<lparr>controlCopies :=
            [\<lparr>id_cc = ''4'', documentId_cc = ''d0'', userId_cc = ''admin-1'',
              actionType = ''view'', copyNumber = 1, issuedAt_cc = 7\<rparr>],
          nextId := 5\<rparr>)"
    unfolding master
    by (simp add: ok createControlCopy_def Let_def freshId_def example_ledger example_facts n dg)
  show ?thesis
    using 1 2 3
    by (simp add: example_users example_documents example_QA001)
qed

section \<open>Revision numbers of a docNumber\<close>

lemma keys_updateDocument:
  assumes "\<And>d. docNumber (upd d) = docNumber d" and "\<And>d. revisionNo (upd d) = revisionNo d"
  shows "revisionKeys (snd (updateDocument i upd s)) = revisionKeys s"
  using assms by (simp add: revisionKeys_def updateDocument_other_fields)

lemma keys_createNotification:
  "revisionKeys (createNotification uid did msg ty now s) = revisionKeys s"
  by (simp add: revisionKeys_def createNotification_fields)

lemma keys_notify_all:
  "revisionKeys (foldl (\<lambda>st u. createNotification (id_user u) did msg ty now st) s us)
     = revisionKeys s"
  by (simp add: revisionKeys_def notify_all_fields)

lemma keys_assign: "revisionKeys (assignDocumentToDepartments i ds s) = revisionKeys s"
  by (simp add: revisionKeys_def assign_fields)

lemma keys_approve_route: "revisionKeys (snd (approve_route i body now s)) = revisionKeys s"
  by (simp add: approve_route_def case_prod_beta Let_def keys_createNotification keys_notify_all
                keys_assign keys_updateDocument
           split: option.split)

lemma keys_decline_route: "revisionKeys (snd (decline_route i remarks now s)) = revisionKeys s"
  by (simp add: decline_route_def case_prod_beta Let_def keys_createNotification
                keys_updateDocument
           split: option.split)

lemma keys_issue_route: "revisionKeys (snd (issue_route i body now s)) = revisionKeys s"
  by (simp add: issue_route_def case_prod_beta Let_def keys_createNotification
                keys_updateDocument
           split: option.split)

lemma keys_upload_route: "revisionKeys (snd (upload_route e i file s)) = revisionKeys s"
  by (simp add: upload_route_def case_prod_beta Let_def keys_updateDocument
           split: option.split sum.split)

lemma keys_pdf_distribute: "revisionKeys (snd (pdf_distribute e usr uid d now s)) = revisionKeys s"
  by (simp add: pdf_distribute_def revisionKeys_def createControlCopy_def Let_def
           split: sum.split)

lemma keys_print_distribute: "revisionKeys (snd (print_distribute e usr uid d now s)) = revisionKeys s"
  by (simp add: print_distribute_def revisionKeys_def createControlCopy_def createPrintLog_def
                Let_def
           split: sum.split)

lemma keys_pdf_route: "revisionKeys (snd (pdf_route e i u v now s)) = revisionKeys s"
  by (simp add: pdf_route_def Let_def keys_pdf_distribute
           split: option.split versionParam.split)

lemma keys_print_route: "revisionKeys (snd (print_route e i u v now s)) = revisionKeys s"
  by (simp add: print_route_def Let_def keys_print_distribute
           split: option.split versionParam.split)

lemma createDocument_duplicate:
  assumes "(docNumber_ins ins, revisionNo_ins ins) \<in> set (revisionKeys s)"
  shows "createDocument ins s =
           Inl (ValidationError ''revisionNo'' ''duplicates an existing revision of this docNumber'')"
proof -
  from assms have "find (\<lambda>d. docNumber d = docNumber_ins ins \<and> revisionNo d = revisionNo_ins ins)
                (documents s) \<noteq> None"
    by (auto simp: find_None_iff revisionKeys_def)
  then show ?thesis by (auto simp: createDocument_def)
qed
lemma create_route_duplicate:
  assumes "(docNumber_b body, case revisionNo_b body of Some r \<Rightarrow> r | None \<Rightarrow> 0)
             \<in> set (revisionKeys s)"
  shows "snd (create_route e upload body now s) = s"
    and "fst (fst (create_route e upload body now s)) \<noteq> 201"
    and "upload = Some f \<Longrightarrow> mimetype f \<in> set allowedMimeTypes \<Longrightarrow> size_file f \<le> maxSize \<Longrightarrow>
         fst (create_route e upload body now s) =
           internalError (ValidationError ''revisionNo'' ''duplicates an existing revision of this docNumber'')"
proof -
  have dup: "\<And>n p pv h ft. createDocument
           \<lparr>docName_ins = n, docNumber_ins = docNumber_b body,
            revisionNo_ins = (case revisionNo_b body of Some r \<Rightarrow> r | None \<Rightarrow> 0),
            preparedBy_ins = p, previousVersionId_ins = pv, headerInfo_ins = h,
            footerInfo_ins = ft\<rparr> s =
         Inl (ValidationError ''revisionNo'' ''duplicates an existing revision of this docNumber'')"
    using assms by (intro createDocument_duplicate) simp
  show "snd (create_route e upload body now s) = s"
    by (simp add: create_route_def Let_def dup split: option.split)
  show "fst (fst (create_route e upload body now s)) \<noteq> 201"
    by (simp add: create_route_def Let_def dup internalError_def split: option.split)
  show "upload = Some f \<Longrightarrow> mimetype f \<in> set allowedMimeTypes \<Longrightarrow> size_file f \<le> maxSize \<Longrightarrow>
         fst (create_route e upload body now s) =
           internalError (ValidationError ''revisionNo'' ''duplicates an existing revision of this docNumber'')"
    by (simp add: create_route_def Let_def dup)
qed
lemma create_route_rejected_file:
  assumes "\<not> (mimetype f \<in> set allowedMimeTypes \<and> size_file f \<le> maxSize)"
  shows "snd (create_route e (Some f) body now s) = s"
proof (cases "mimetype f \<in> set allowedMimeTypes")
  case True
  with assms have "size_file f > maxSize" by simp
  with True show ?thesis by (simp add: create_route_def)
next
  case False
  then show ?thesis by (simp add: create_route_def)
qed


lemma keys_create_route_created:
  assumes "mimetype f \<in> set allowedMimeTypes" "size_file f \<le> maxSize"
   and "createDocument \<lparr>docName_ins = docName_b body, docNumber_ins = docNumber_b body,
                    revisionNo_ins = (case revisionNo_b body of Some r \<Rightarrow> r | None \<Rightarrow> 0),
                    preparedBy_ins = preparedBy_b body,
                    previousVersionId_ins = previousVersionId_b body,
                    headerInfo_ins = fst (extractHeaderFooterFromWord e (buffer f)),
                    footerInfo_ins = snd (extractHeaderFooterFromWord e (buffer f))\<rparr> s = Inr (doc, s1)"
  shows "revisionKeys (snd (create_route e (Some f) body now s)) = revisionKeys s1"
  using assms
  by (simp add: create_route_def Let_def keys_notify_all keys_updateDocument
                 split: sum.split)


lemma keys_create_route:
  "revisionKeys (snd (create_route e upload body now s)) = revisionKeys s
   \<or> (\<exists>k. k \<notin> set (revisionKeys s)
         \<and> revisionKeys (snd (create_route e upload body now s)) = revisionKeys s @ [k])"
proof (cases upload)
  case None
  then show ?thesis by (simp add: create_route_def)
next
  case (Some f)
  let ?ins = "\<lparr>docName_ins = docName_b body, docNumber_ins = docNumber_b body,
                    revisionNo_ins = (case revisionNo_b body of Some r \<Rightarrow> r | None \<Rightarrow> 0),
                    preparedBy_ins = preparedBy_b body,
                    previousVersionId_ins = previousVersionId_b body,
                    headerInfo_ins = fst (extractHeaderFooterFromWord e (buffer f)),
                    footerInfo_ins = snd (extractHeaderFooterFromWord e (buffer f))\<rparr>"
  show ?thesis
  proof (cases "mimetype f \<in> set allowedMimeTypes \<and> size_file f \<le> maxSize")
    case False
    then show ?thesis using Some by (simp add: create_route_rejected_file)
  next
    case True
    then have valid: "mimetype f \<in> set allowedMimeTypes" "size_file f \<le> maxSize" by simp_all
    show ?thesis
    proof (cases "createDocument ?ins s")
      case (Inl err)
      then have "snd (create_route e (Some f) body now s) = s"
        using valid by (simp add: create_route_def Let_def)
      then show ?thesis using Some by simp
    next
      case (Inr r)
      obtain doc s1 where r: "r = (doc, s1)" by (cases r) auto
      note created = Inr[unfolded r]
      note f = createDocument_fields[OF created]
      have k1: "revisionKeys s1 = revisionKeys s @ [(docNumber_ins ?ins, revisionNo_ins ?ins)]"
        using f(3,4,5) by (simp add: revisionKeys_def)
      have "revisionKeys (snd (create_route e upload body now s)) = revisionKeys s1"
        unfolding Some by (rule keys_create_route_created[OF valid created])
      then have k2: "revisionKeys (snd (create_route e upload body now s)) =
                 revisionKeys s @ [(docNumber_ins ?ins, revisionNo_ins ?ins)]"
        using k1 by simp
      show ?thesis
        by (rule disjI2, rule exI[of _ "(docNumber_ins ?ins, revisionNo_ins ?ins)"],
            rule conjI[OF f(6) k2])
    qed
  qed
qed
lemma keys_handle:
  "revisionKeys (snd (handle e r now s)) = revisionKeys s
   \<or> (\<exists>k. k \<notin> set (revisionKeys s)
         \<and> revisionKeys (snd (handle e r now s)) = revisionKeys s @ [k])"
  by (cases r)
     (simp_all add: keys_create_route keys_approve_route keys_decline_route keys_issue_route
                    keys_upload_route keys_pdf_route keys_print_route
               del: split_paired_Ex)
lemma distinct_handle:
  "distinct (revisionKeys s) \<Longrightarrow> distinct (revisionKeys (snd (handle e r now s)))"
proof -
  assume d: "distinct (revisionKeys s)"
  from keys_handle[of e r now s] show ?thesis
  proof
    assume "revisionKeys (snd (handle e r now s)) = revisionKeys s"
    then show ?thesis using d by simp
  next
    assume "\<exists>k. k \<notin> set (revisionKeys s)
         \<and> revisionKeys (snd (handle e r now s)) = revisionKeys s @ [k]"
    then obtain k where "k \<notin> set (revisionKeys s)"
      "revisionKeys (snd (handle e r now s)) = revisionKeys s @ [k]" by blast
    then show ?thesis using d by simp
  qed
qed

lemma reachable_distinct: "reachable e s \<Longrightarrow> distinct (revisionKeys s)"
proof (induction rule: reachable.induct)
  case (initial s)
  then show ?case by (simp add: revisionKeys_def)
next
  case (step s r now)
  from distinct_handle[OF step.IH] show ?case .
qed
text \<open>
  Claim C8. In every store reachable from one without documents, the pairs of
  \<^verbatim>\<open>docNumber\<close> and \<^verbatim>\<open>revisionNo\<close> of the Document rows are pairwise distinct, and every
  request keeps them so. A creation request whose \<^verbatim>\<open>docNumber\<close> and \<^verbatim>\<open>revisionNo\<close> are those
  of an existing row creates no row and does not answer 201; when its file passes the
  upload checks, the answer is the ValidationError of \<^verbatim>\<open>storage.createDocument\<close>, which the
  route sends as a 500.
\<close>

theorem revisions_pairwise_distinct:
  assumes "reachable e s"
  shows "distinct (revisionKeys s)
       \<and> distinct (revisionKeys (snd (handle e r now s)))
       \<and> ((docNumber_b body, case revisionNo_b body of Some n \<Rightarrow> n | None \<Rightarrow> 0)
              \<in> set (revisionKeys s) \<longrightarrow>
            snd (create_route e upload body now s) = s
            \<and> fst (fst (create_route e upload body now s)) \<noteq> 201
            \<and> (\<forall>f. upload = Some f \<and> mimetype f \<in> set allowedMimeTypes \<and> size_file f \<le> maxSize \<longrightarrow>
                  fst (create_route e upload body now s) =
                    internalError (ValidationError ''revisionNo''
                                     ''duplicates an existing revision of this docNumber'')))"
proof (intro conjI impI allI)
  show d: "distinct (revisionKeys s)" by (rule reachable_distinct[OF assms])
  show "distinct (revisionKeys (snd (handle e r now s)))" by (rule distinct_handle[OF d])
next
  assume k: "(docNumber_b body, case revisionNo_b body of Some n \<Rightarrow> n | None \<Rightarrow> 0)
              \<in> set (revisionKeys s)"
  show "snd (create_route e upload body now s) = s" by (rule create_route_duplicate(1)[OF k])
  show "fst (fst (create_route e upload body now s)) \<noteq> 201"
    by (rule create_route_duplicate(2)[OF k])
  fix f
  assume "upload = Some f \<and> mimetype f \<in> set allowedMimeTypes \<and> size_file f \<le> maxSize"
  then show "fst (create_route e upload body now s) =
                    internalError (ValidationError ''revisionNo''
                                     ''duplicates an existing revision of this docNumber'')"
    using create_route_duplicate(3)[OF k] by blast
qed

lemma exampleFile_accepted:
  "mimetype exampleFile \<in> set allowedMimeTypes" "size_file exampleFile \<le> maxSize"
  by (simp_all add: exampleFile_def allowedMimeTypes_def maxSize_def)

lemma first_create_keys:
  "revisionKeys (snd (handle exampleEnv (CreateReq (Some exampleFile) exampleCreateBody) 7 seededStore))
     = [(''QA-001'', 0)]"
  using exampleFile_accepted
  by (simp add: create_route_def Let_def createDocument_def seededStore_def exampleEnv_def
                exampleCreateBody_def revisionKeys_def updateDocument_other_fields
                notify_all_fields
           split: sum.split)

theorem revisions_pairwise_distinct_witness:
  "reachable exampleEnv
     (snd (handle exampleEnv (CreateReq (Some exampleFile) exampleCreateBody) 7 seededStore))
   \<and> distinct (revisionKeys
        (snd (handle exampleEnv (CreateReq (Some exampleFile) exampleCreateBody) 7 seededStore)))
   \<and> (''QA-001'', 0) \<in> set (revisionKeys
        (snd (handle exampleEnv (CreateReq (Some exampleFile) exampleCreateBody) 7 seededStore)))
   \<and> create_route exampleEnv (Some exampleFile) exampleCreateBody 8
        (snd (handle exampleEnv (CreateReq (Some exampleFile) exampleCreateBody) 7 seededStore)) =
       ((500, Message ''revisionNo: duplicates an existing revision of this docNumber''),
        snd (handle exampleEnv (CreateReq (Some exampleFile) exampleCreateBody) 7 seededStore))"
proof -
  let ?s1 = "snd (handle exampleEnv (CreateReq (Some exampleFile) exampleCreateBody) 7 seededStore)"
  have r: "reachable exampleEnv ?s1"
    by (rule reachable.step, rule reachable.initial) (simp add: seededStore_def)
  have k: "(docNumber_b exampleCreateBody,
            case revisionNo_b exampleCreateBody of Some n \<Rightarrow> n | None \<Rightarrow> 0)
             \<in> set (revisionKeys ?s1)"
    unfolding first_create_keys by (simp add: exampleCreateBody_def)
  have k': "(''QA-001'', 0) \<in> set (revisionKeys ?s1)"
    unfolding first_create_keys by simp
  from revisions_pairwise_distinct[OF r, where body = exampleCreateBody
         and upload = "Some exampleFile" and now = 8] k exampleFile_accepted
  have "distinct (revisionKeys ?s1)"
    and "snd (create_route exampleEnv (Some exampleFile) exampleCreateBody 8 ?s1) = ?s1"
    and "fst (create_route exampleEnv (Some exampleFile) exampleCreateBody 8 ?s1) =
           internalError (ValidationError ''revisionNo''
                            ''duplicates an existing revision of this docNumber'')"
    by blast+
  then show ?thesis using r k'
    by (simp add: internalError_def prod_eq_iff)
qed

end
